theory Spec2Isabelle
  imports Main
begin

section \<open>Exceptions\<close>

text \<open>
  The exceptions the source throws. \<open>HttpException msg status\<close> is NestJS's base class
  (\<open>new HttpException('No refresh token found', HttpStatus.UNAUTHORIZED)\<close>); the others are
  its subclasses with a fixed status, and \<open>Error\<close> is a plain JavaScript error, which
  the framework answers with status 500. An \<open>UnauthorizedException\<close> built with no argument
  carries the message \<open>Unauthorized\<close>.
\<close>

datatype exn =
    HttpException string nat
  | UnauthorizedException string
  | ConflictException string
  | NotFoundException string
  | Error string

fun getStatus :: "exn \<Rightarrow> nat" where
  "getStatus (HttpException m s) = s"
| "getStatus (UnauthorizedException m) = 401"
| "getStatus (ConflictException m) = 409"
| "getStatus (NotFoundException m) = 404"
| "getStatus (Error m) = 500"

fun getMessage :: "exn \<Rightarrow> string" where
  "getMessage (HttpException m s) = m"
| "getMessage (UnauthorizedException m) = m"
| "getMessage (ConflictException m) = m"
| "getMessage (NotFoundException m) = m"
| "getMessage (Error m) = m"

section \<open>Strings\<close>

text \<open>
  JavaScript strings are modelled as \<open>string\<close>. \<open>toLowerCase\<close> maps the ASCII capitals
  to their small letters and leaves every other character alone; \<open>orElse v d\<close> is
  \<open>v || d\<close> on a string (the empty string is falsy).
\<close>

definition isDigit :: "char \<Rightarrow> bool" where
  "isDigit c = (48 \<le> (of_char c :: nat) \<and> (of_char c :: nat) \<le> 57)"

definition lowerChar :: "char \<Rightarrow> char" where
  "lowerChar c =
     (case map_of (zip ''ABCDEFGHIJKLMNOPQRSTUVWXYZ'' ''abcdefghijklmnopqrstuvwxyz'') c of
        None \<Rightarrow> c
      | Some l \<Rightarrow> l)"

definition toLowerCase :: "string \<Rightarrow> string" where
  "toLowerCase s = map lowerChar s"

definition orElse :: "string \<Rightarrow> string \<Rightarrow> string" where
  "orElse v d = (if v = [] then d else v)"

section \<open>External libraries\<close>

text \<open>
  The algorithms of third-party packages are parameters of the model, collected in one
  record:
  \<^item> \<open>hmac key msg\<close>: the HMAC-SHA256 signature jsonwebtoken computes over the signing
    input of a token;
  \<^item> \<open>bcrypt_hash pw\<close>: \<open>bcrypt.hash(pw, 10)\<close>;
  \<^item> \<open>bcrypt_compare pw h\<close>: \<open>bcrypt.compare(pw, h)\<close>;
  \<^item> \<open>toPort v\<close>: the number class-transformer leaves in \<open>PORT\<close> for the environment
    string \<open>v\<close> (the implicit conversion of \<open>@Type(() => Number)\<close> and the
    \<open>@Transform\<close> \<open>parseInt(String(value), 10) || 3000\<close>, which always yields an
    integer).
\<close>

record libs =
  hmac :: "string \<Rightarrow> string \<Rightarrow> string"
  bcrypt_hash :: "string \<Rightarrow> string"
  bcrypt_compare :: "string \<Rightarrow> string \<Rightarrow> bool"
  toPort :: "string \<Rightarrow> int"

text \<open>
  One instance of the interface, for evaluating the model at concrete inputs. Its functions
  are not the real algorithms and no general theorem depends on them.
\<close>

definition sample_libs :: libs where
  "sample_libs =
     \<lparr> hmac = (\<lambda>key msg. key @ ''/'' @ msg),
       bcrypt_hash = (\<lambda>pw. ''$2b$10$'' @ pw),
       bcrypt_compare = (\<lambda>pw h. h = ''$2b$10$'' @ pw),
       toPort = (\<lambda>v. 3000) \<rparr>"

section \<open>Configuration\<close>

subsection \<open>config/validation.schema.ts\<close>

text \<open>
  \<open>process.env\<close> is a map from variable names to strings. \<open>plainToInstance\<close> builds an
  \<open>EnvironmentVariables\<close> instance: a property with an initializer keeps it when the
  variable is unset, its \<open>@Transform\<close> replaces an empty value by the same default, and a
  property without initializer stays undefined (\<open>None\<close>) when the variable is unset.
\<close>

type_synonym env = "string \<rightharpoonup> string"

record EnvironmentVariables =
  MONGODB_URI :: "string option"
  JWT_SECRET :: "string option"
  JWT_EXPIRES_IN :: string
  JWT_REFRESH_SECRET :: "string option"
  JWT_REFRESH_EXPIRES_IN :: string
  PORT :: int
  NODE_ENV :: string
  LOG_LEVEL :: string
  CORS_ORIGIN :: string

definition withDefault :: "string option \<Rightarrow> string \<Rightarrow> string" where
  "withDefault v d = (case v of None \<Rightarrow> d | Some s \<Rightarrow> orElse s d)"

definition plainToInstance :: "libs \<Rightarrow> env \<Rightarrow> EnvironmentVariables" where
  "plainToInstance L config =
     \<lparr> MONGODB_URI = config ''MONGODB_URI'',
       JWT_SECRET = config ''JWT_SECRET'',
       JWT_EXPIRES_IN = withDefault (config ''JWT_EXPIRES_IN'') ''1h'',
       JWT_REFRESH_SECRET = config ''JWT_REFRESH_SECRET'',
       JWT_REFRESH_EXPIRES_IN = withDefault (config ''JWT_REFRESH_EXPIRES_IN'') ''7d'',
       PORT = (case config ''PORT'' of None \<Rightarrow> 3000 | Some v \<Rightarrow> toPort L v),
       NODE_ENV = withDefault (config ''NODE_ENV'') ''development'',
       LOG_LEVEL = withDefault (config ''LOG_LEVEL'') ''info'',
       CORS_ORIGIN = withDefault (config ''CORS_ORIGIN'') ''*'' \<rparr>"

text \<open>
  The decorators of class-validator, each as the predicate it checks. \<open>MinLength\<close> counts
  the characters of the model's string, which is class-validator's count for an ASCII value.
\<close>

definition IsNotEmpty :: "string option \<Rightarrow> bool" where
  "IsNotEmpty v = (case v of None \<Rightarrow> False | Some s \<Rightarrow> s \<noteq> [])"

definition IsString :: "string option \<Rightarrow> bool" where
  "IsString v = (case v of None \<Rightarrow> False | Some s \<Rightarrow> True)"

definition MinLength :: "nat \<Rightarrow> string option \<Rightarrow> bool" where
  "MinLength n v = (case v of None \<Rightarrow> False | Some s \<Rightarrow> n \<le> length s)"

text \<open>\<open>@Matches(/^\d+[smhdwy]$/)\<close>: one or more digits, then one unit letter, and nothing else.\<close>

definition isTimeString :: "string \<Rightarrow> bool" where
  "isTimeString s =
     (case rev s of
        [] \<Rightarrow> False
      | u # ds \<Rightarrow> u \<in> set ''smhdwy'' \<and> ds \<noteq> [] \<and> list_all isDigit ds)"

definition Environment :: "string list" where
  "Environment = [''development'', ''production'', ''test'', ''staging'']"

definition LogLevel :: "string list" where
  "LogLevel = [''error'', ''warn'', ''info'', ''debug'', ''verbose'']"

definition IsEnum :: "string list \<Rightarrow> string \<Rightarrow> bool" where
  "IsEnum values v = (v \<in> set values)"

text \<open>
  \<open>validateSync\<close> returns one error for each property with a failed constraint, here the
  property's name (\<open>skipMissingProperties: false\<close>: an undefined property is checked too).
  \<open>PORT\<close> is an integer after its transform, so of \<open>@IsInt() @Min(1)\<close> the bound is
  what can fail; \<open>CORS_ORIGIN\<close> is a string after its transform, so its \<open>@IsString()\<close>
  cannot fail.
\<close>

definition validateSync :: "EnvironmentVariables \<Rightarrow> string list" where
  "validateSync c =
     (if IsString (MONGODB_URI c) \<and> IsNotEmpty (MONGODB_URI c) then [] else [''MONGODB_URI''])
     @ (if IsString (JWT_SECRET c) \<and> MinLength 32 (JWT_SECRET c) then [] else [''JWT_SECRET''])
     @ (if isTimeString (JWT_EXPIRES_IN c) then [] else [''JWT_EXPIRES_IN''])
     @ (if IsString (JWT_REFRESH_SECRET c) \<and> MinLength 32 (JWT_REFRESH_SECRET c)
        then [] else [''JWT_REFRESH_SECRET''])
     @ (if isTimeString (JWT_REFRESH_EXPIRES_IN c) then [] else [''JWT_REFRESH_EXPIRES_IN''])
     @ (if 1 \<le> PORT c then [] else [''PORT''])
     @ (if IsEnum Environment (NODE_ENV c) then [] else [''NODE_ENV''])
     @ (if IsEnum LogLevel (LOG_LEVEL c) then [] else [''LOG_LEVEL''])"

text \<open>
  \<open>validate\<close> throws \<open>new Error(errors.toString())\<close> when there is an error; the message
  is modelled by the names of the failed properties.
\<close>

definition validate :: "libs \<Rightarrow> env \<Rightarrow> exn + EnvironmentVariables" where
  "validate L config =
     (let validatedConfig = plainToInstance L config;
          errors = validateSync validatedConfig
      in if length errors > 0 then Inl (Error (concat errors)) else Inr validatedConfig)"

subsection \<open>config/configuration.ts\<close>

text \<open>
  The configuration factory reads \<open>process.env\<close> again; of its result the keys the
  authentication code asks \<open>ConfigService\<close> for are kept.
\<close>

record jwt_config =
  secret :: "string option"
  expiresIn :: string
  refreshSecret :: "string option"
  refreshExpiresIn :: string

record configuration_t =
  nodeEnv :: string
  jwt :: jwt_config

definition configuration :: "env \<Rightarrow> configuration_t" where
  "configuration e =
     \<lparr> nodeEnv = withDefault (e ''NODE_ENV'') ''development'',
       jwt = \<lparr> secret = e ''JWT_SECRET'',
               expiresIn = withDefault (e ''JWT_EXPIRES_IN'') ''1h'',
               refreshSecret = e ''JWT_REFRESH_SECRET'',
               refreshExpiresIn = withDefault (e ''JWT_REFRESH_EXPIRES_IN'') ''7d'' \<rparr> \<rparr>"

section \<open>Tokens\<close>

subsection \<open>The compact serialisation\<close>

text \<open>
  A token on the wire is three segments separated by dots: header, claims and signature,
  each base64url-encoded, the claims being a JSON object with \<open>sub\<close>, \<open>email\<close>,
  \<open>iat\<close> and \<open>exp\<close>. The model keeps the three dot-separated segments and replaces
  base64url(JSON) by an escaping that is likewise free of dots and decodable: the claims
  segment holds the four fields separated by commas, numbers in decimal.
\<close>

fun escape :: "string \<Rightarrow> string" where
  "escape [] = []"
| "escape (c # cs) =
     (if c = CHR ''.'' then ''%d''
      else if c = CHR '','' then ''%c''
      else if c = CHR ''%'' then ''%%''
      else [c]) @ escape cs"

fun unescape :: "string \<Rightarrow> string option" where
  "unescape [] = Some []"
| "unescape (c # cs) =
     (if c = CHR ''%'' then
        (case cs of
           [] \<Rightarrow> None
         | d # ds \<Rightarrow>
             if d = CHR ''d'' then map_option ((#) CHR ''.'') (unescape ds)
             else if d = CHR ''c'' then map_option ((#) CHR '','') (unescape ds)
             else if d = CHR ''%'' then map_option ((#) CHR ''%'') (unescape ds)
             else None)
      else if c = CHR ''.'' \<or> c = CHR '','' then None
      else map_option ((#) c) (unescape cs))"

definition digitChar :: "nat \<Rightarrow> char" where
  "digitChar d = ''0123456789'' ! d"

function showNat :: "nat \<Rightarrow> string" where
  "showNat n =
     (if n < 10 then [digitChar n]
      else showNat (n div 10) @ [digitChar (n mod 10)])"
  by pat_completeness auto
termination
  by (relation "measure id") auto

declare showNat.simps [simp del]

definition readNat :: "string \<Rightarrow> nat option" where
  "readNat s =
     (if s \<noteq> [] \<and> list_all isDigit s
      then Some (foldl (\<lambda>a c. 10 * a + (of_char c - 48)) 0 s)
      else None)"

text \<open>\<open>splitOn c s\<close> is \<open>s.split(c)\<close>.\<close>

fun splitOn :: "char \<Rightarrow> string \<Rightarrow> string list" where
  "splitOn c [] = [[]]"
| "splitOn c (x # xs) =
     (if x = c then [] # splitOn c xs
      else (case splitOn c xs of [] \<Rightarrow> [[x]] | y # ys \<Rightarrow> (x # y) # ys))"

text \<open>
  The payload the code signs is \<open>{email, sub}\<close>; jsonwebtoken adds \<open>iat\<close> and
  \<open>exp\<close> (Unix seconds).
\<close>

record JwtPayload =
  sub :: string
  email :: string

record Claims = JwtPayload +
  iat :: nat
  exp :: nat

definition jwtHeader :: string where
  "jwtHeader = ''HS256''"

definition encodeClaims :: "Claims \<Rightarrow> string" where
  "encodeClaims c =
     escape (sub c) @ '','' @ escape (email c) @ '','' @ showNat (iat c) @ '','' @ showNat (exp c)"

definition decodeClaims :: "string \<Rightarrow> Claims option" where
  "decodeClaims s =
     (case splitOn CHR '','' s of
        [a, b, c, d] \<Rightarrow>
          (case (unescape a, unescape b, readNat c, readNat d) of
             (Some su, Some em, Some i, Some e) \<Rightarrow>
               Some \<lparr> sub = su, email = em, iat = i, exp = e \<rparr>
           | _ \<Rightarrow> None)
      | _ \<Rightarrow> None)"

text \<open>The signing input of a token is its first two segments with the dot between them.\<close>

definition signingInput :: "Claims \<Rightarrow> string" where
  "signingInput c = jwtHeader @ ''.'' @ encodeClaims c"

definition encodeToken :: "libs \<Rightarrow> string \<Rightarrow> Claims \<Rightarrow> string" where
  "encodeToken L key c = signingInput c @ ''.'' @ escape (hmac L key (signingInput c))"

subsection \<open>jsonwebtoken: sign and verify\<close>

text \<open>
  \<open>timespan\<close> is the number of seconds of a lifetime such as \<open>1h\<close> or \<open>7d\<close>, for the
  strings the configuration admits (digits and one unit letter); the library gives up on a
  string of more than 100 characters. A year has 365.25 days.
\<close>

definition unitSeconds :: "char \<Rightarrow> nat" where
  "unitSeconds u =
     (if u = CHR ''s'' then 1
      else if u = CHR ''m'' then 60
      else if u = CHR ''h'' then 3600
      else if u = CHR ''d'' then 86400
      else if u = CHR ''w'' then 604800
      else 31557600)"

definition timespan :: "string \<Rightarrow> nat option" where
  "timespan s =
     (if isTimeString s \<and> length s \<le> 100
      then map_option (\<lambda>n. n * unitSeconds (last s)) (readNat (butlast s))
      else None)"

datatype jwt_error = JsonWebTokenError string | TokenExpiredError

definition jwt_sign :: "libs \<Rightarrow> JwtPayload \<Rightarrow> string \<Rightarrow> string \<Rightarrow> nat \<Rightarrow> exn + string" where
  "jwt_sign L payload key lifetime now =
     (case timespan lifetime of
        None \<Rightarrow> Inl (Error ''expiresIn should be a number of seconds or string representing a timespan'')
      | Some secs \<Rightarrow>
          Inr (encodeToken L key
                 \<lparr> sub = sub payload, email = email payload, iat = now, exp = now + secs \<rparr>))"

text \<open>
  \<open>jwt_verify\<close>: a token that does not split into three segments or does not decode is
  malformed; the signature is recomputed over the first two segments with the verifier's
  key; unless \<open>ignoreExpiration\<close> is set, a token is expired once the clock has reached
  \<open>exp\<close>.
\<close>

definition jwt_verify :: "libs \<Rightarrow> string \<Rightarrow> string \<Rightarrow> bool \<Rightarrow> nat \<Rightarrow> jwt_error + Claims" where
  "jwt_verify L token key ignoreExp now =
     (case splitOn CHR ''.'' token of
        [h, p, s] \<Rightarrow>
          (case (decodeClaims p, unescape s) of
             (Some c, Some sg) \<Rightarrow>
               if h \<noteq> jwtHeader then Inl (JsonWebTokenError ''invalid token'')
               else if sg \<noteq> hmac L key (h @ ''.'' @ p) then Inl (JsonWebTokenError ''invalid signature'')
               else if \<not> ignoreExp \<and> exp c \<le> now then Inl TokenExpiredError
               else Inr c
           | _ \<Rightarrow> Inl (JsonWebTokenError ''invalid token''))
      | _ \<Rightarrow> Inl (JsonWebTokenError ''jwt malformed''))"

subsection \<open>JwtService of @nestjs/jwt\<close>

text \<open>
  \<open>JwtService.sign(payload, options)\<close> signs with \<open>options.secret || moduleOptions.secret\<close>
  and with the module's sign options overridden by the call's; jsonwebtoken throws when
  there is no key.
\<close>

record JwtModuleOptions =
  mod_secret :: "string option"
  mod_expiresIn :: string

record JwtSignOptions =
  so_secret :: "string option"
  so_expiresIn :: "string option"

definition truthy :: "string option \<Rightarrow> bool" where
  "truthy v = (case v of None \<Rightarrow> False | Some s \<Rightarrow> s \<noteq> [])"

definition JwtService_sign ::
  "libs \<Rightarrow> JwtModuleOptions \<Rightarrow> JwtPayload \<Rightarrow> JwtSignOptions \<Rightarrow> nat \<Rightarrow> exn + string" where
  "JwtService_sign L m payload options now =
     (let key = (if truthy (so_secret options) then so_secret options else mod_secret m);
          lifetime = (case so_expiresIn options of None \<Rightarrow> mod_expiresIn m | Some e \<Rightarrow> e)
      in case key of
           None \<Rightarrow> Inl (Error ''secretOrPrivateKey must have a value'')
         | Some k \<Rightarrow>
             if k = [] then Inl (Error ''secretOrPrivateKey must have a value'')
             else jwt_sign L payload k lifetime now)"

text \<open>
  Modelled from the spec: \<open>auth.module.ts\<close>, which registers the \<open>JwtModule\<close>, is not
  among the sources. The spec binds the access keyspace to the access-signing secret and
  the access lifetime, and \<open>generateAuthResponse\<close> signs the access token with the
  "default JWT module config".
\<close>

definition jwtModuleOptions :: "configuration_t \<Rightarrow> JwtModuleOptions" where
  "jwtModuleOptions cfg =
     \<lparr> mod_secret = secret (jwt cfg), mod_expiresIn = expiresIn (jwt cfg) \<rparr>"

section \<open>Users\<close>

subsection \<open>users/schemas/user.schema.ts, users/entities/user.entity.ts\<close>

text \<open>
  A \<open>UserDocument\<close> (\<open>_id\<close>, \<open>email\<close>, \<open>name\<close>, \<open>password\<close>, \<open>createdAt?\<close>,
  \<open>updatedAt?\<close>) and a \<open>UserEntity\<close> (\<open>_id\<close>, \<open>email\<close>, \<open>name\<close>, \<open>createdAt\<close>,
  \<open>updatedAt\<close>); the fields carry a prefix because HOL's record fields share one name
  space. \<open>_id\<close> is the ObjectId as a string, a \<open>Date\<close> is its time value. The
  collection is the list of its documents.
\<close>

record UserDocument =
  doc_id :: string
  doc_email :: string
  doc_name :: string
  doc_password :: string
  doc_createdAt :: "nat option"
  doc_updatedAt :: "nat option"

record UserEntity =
  ent_id :: string
  ent_email :: string
  ent_name :: string
  ent_createdAt :: "nat option"
  ent_updatedAt :: "nat option"

type_synonym userModel = "UserDocument list"

record CreateUserDto =
  dto_email :: string
  dto_name :: string
  dto_password :: string

record UpdateUserDto =
  upd_name :: "string option"

subsection \<open>users/users.service.ts\<close>

definition isSpace :: "char \<Rightarrow> bool" where
  "isSpace c = (c \<in> set [CHR '' '', CHR 0x09, CHR 0x0A, CHR 0x0B, CHR 0x0C, CHR 0x0D])"

definition trim :: "string \<Rightarrow> string" where
  "trim s = rev (dropWhile isSpace (rev (dropWhile isSpace s)))"

text \<open>
  \<open>create\<close>: the password is hashed, the schema's setters lower-case and trim the email
  and trim the name, \<open>save()\<close> validates the document (the email is not empty, the name
  has at least 3 characters; a bcrypt hash is never empty), stamps both dates with the
  clock and gives the document the fresh ObjectId \<open>newId\<close>; the unique index on \<open>email\<close>
  makes it throw on a duplicate. The result is the outcome and the collection afterwards.
\<close>

definition create ::
  "libs \<Rightarrow> nat \<Rightarrow> string \<Rightarrow> userModel \<Rightarrow> CreateUserDto \<Rightarrow> (exn + UserDocument) \<times> userModel" where
  "create L now newId db createUserDto =
     (let hashedPassword = bcrypt_hash L (dto_password createUserDto);
          createdUser =
            \<lparr> doc_id = newId,
              doc_email = trim (toLowerCase (dto_email createUserDto)),
              doc_name = trim (dto_name createUserDto),
              doc_password = hashedPassword,
              doc_createdAt = Some now,
              doc_updatedAt = Some now \<rparr>
      in if doc_email createdUser = [] \<or> length (doc_name createdUser) < 3
         then (Inl (Error ''User validation failed''), db)
         else if doc_email createdUser \<in> set (map doc_email db)
         then (Inl (Error ''E11000 duplicate key error''), db)
         else (Inr createdUser, db @ [createdUser]))"

text \<open>
  \<open>findByEmail\<close> is \<open>findOne({ email: email.toLowerCase() })\<close>; the schema's setters
  apply to the value of the query as well, so the match is on the lower-cased and trimmed
  email. \<open>findById\<close> throws when there is no document with the id. (For an id that is
  not an ObjectId the driver throws before it looks anything up; the model does not tell
  that error from the missing document, and the strategies catch both alike.)
\<close>

definition findByEmail :: "userModel \<Rightarrow> string \<Rightarrow> UserDocument option" where
  "findByEmail db e = find (\<lambda>u. doc_email u = trim (toLowerCase e)) db"

definition findById :: "userModel \<Rightarrow> string \<Rightarrow> exn + UserDocument" where
  "findById db i =
     (case find (\<lambda>u. doc_id u = i) db of
        None \<Rightarrow> Inl (NotFoundException ''User not found'')
      | Some user \<Rightarrow> Inr user)"

text \<open>
  \<open>update\<close> is \<open>findByIdAndUpdate(id, dto, {new: true})\<close>: the first document with the id
  gets the dto's name, if it has one, and a new \<open>updatedAt\<close>.
\<close>

fun findByIdAndUpdate ::
  "nat \<Rightarrow> userModel \<Rightarrow> string \<Rightarrow> UpdateUserDto \<Rightarrow> UserDocument option \<times> userModel" where
  "findByIdAndUpdate now [] i d = (None, [])"
| "findByIdAndUpdate now (u # us) i d =
     (if doc_id u = i then
        (let u' = u\<lparr> doc_name := (case upd_name d of None \<Rightarrow> doc_name u | Some n \<Rightarrow> trim n),
                     doc_updatedAt := Some now \<rparr>
         in (Some u', u' # us))
      else (case findByIdAndUpdate now us i d of (r, us') \<Rightarrow> (r, u # us')))"

definition update ::
  "nat \<Rightarrow> userModel \<Rightarrow> string \<Rightarrow> UpdateUserDto \<Rightarrow> (exn + UserDocument) \<times> userModel" where
  "update now db i updateUserDto =
     (case findByIdAndUpdate now db i updateUserDto of
        (None, db') \<Rightarrow> (Inl (NotFoundException ''User not found''), db')
      | (Some user, db') \<Rightarrow> (Inr user, db'))"

definition validatePassword :: "libs \<Rightarrow> UserDocument \<Rightarrow> string \<Rightarrow> bool" where
  "validatePassword L user password = bcrypt_compare L password (doc_password user)"

definition toUserEntity :: "UserDocument \<Rightarrow> UserEntity" where
  "toUserEntity user =
     \<lparr> ent_id = doc_id user,
       ent_email = doc_email user,
       ent_name = doc_name user,
       ent_createdAt = doc_createdAt user,
       ent_updatedAt = doc_updatedAt user \<rparr>"

definition getProfile :: "userModel \<Rightarrow> string \<Rightarrow> exn + UserEntity" where
  "getProfile db userId =
     (case findById db userId of Inl e \<Rightarrow> Inl e | Inr user \<Rightarrow> Inr (toUserEntity user))"

definition updateProfile ::
  "nat \<Rightarrow> userModel \<Rightarrow> string \<Rightarrow> UpdateUserDto \<Rightarrow> (exn + UserEntity) \<times> userModel" where
  "updateProfile now db userId updateUserDto =
     (case update now db userId updateUserDto of
        (Inl e, db') \<Rightarrow> (Inl e, db')
      | (Inr user, db') \<Rightarrow> (Inr (toUserEntity user), db'))"

section \<open>Authentication\<close>

subsection \<open>auth/auth.service.ts\<close>

record AuthResponseDto =
  user :: UserEntity
  access_token :: string

record AuthResult =
  response :: AuthResponseDto
  refreshToken :: string

definition generateAuthResponse ::
  "libs \<Rightarrow> configuration_t \<Rightarrow> nat \<Rightarrow> UserDocument \<Rightarrow> exn + AuthResult" where
  "generateAuthResponse L cfg now u =
     (let userId = doc_id u;
          payload = \<lparr> sub = userId, email = doc_email u \<rparr>
      in case JwtService_sign L (jwtModuleOptions cfg) payload
                \<lparr> so_secret = None, so_expiresIn = None \<rparr> now of
           Inl e \<Rightarrow> Inl e
         | Inr accessToken \<Rightarrow>
             (let refreshSecret' = refreshSecret (jwt cfg);
                  refreshExpiresIn' = refreshExpiresIn (jwt cfg)
              in case JwtService_sign L (jwtModuleOptions cfg) payload
                        \<lparr> so_secret = refreshSecret', so_expiresIn = Some refreshExpiresIn' \<rparr>
                        now of
                   Inl e \<Rightarrow> Inl e
                 | Inr refreshToken' \<Rightarrow>
                     Inr \<lparr> response = \<lparr> user = toUserEntity u, access_token = accessToken \<rparr>,
                           refreshToken = refreshToken' \<rparr>))"

definition signUp ::
  "libs \<Rightarrow> configuration_t \<Rightarrow> nat \<Rightarrow> string \<Rightarrow> userModel \<Rightarrow> CreateUserDto
     \<Rightarrow> (exn + AuthResult) \<times> userModel" where
  "signUp L cfg now newId db signUpDto =
     (case findByEmail db (dto_email signUpDto) of
        Some existingUser \<Rightarrow> (Inl (ConflictException ''User with this email already exists''), db)
      | None \<Rightarrow>
          (case create L now newId db signUpDto of
             (Inl e, db') \<Rightarrow> (Inl e, db')
           | (Inr u, db') \<Rightarrow> (generateAuthResponse L cfg now u, db')))"

definition validateUser :: "libs \<Rightarrow> userModel \<Rightarrow> string \<Rightarrow> string \<Rightarrow> UserDocument option" where
  "validateUser L db e password =
     (case findByEmail db e of
        None \<Rightarrow> None
      | Some u \<Rightarrow> if validatePassword L u password then Some u else None)"

definition signIn :: "libs \<Rightarrow> configuration_t \<Rightarrow> nat \<Rightarrow> UserDocument \<Rightarrow> exn + AuthResult" where
  "signIn L cfg now u = generateAuthResponse L cfg now u"

text \<open>
  \<open>refreshTokens\<close>: the body of the \<open>try\<close> is the lookup and the issuance; \<open>findById\<close>
  throws when there is no such user, so the \<open>if (!user)\<close> after it never fires; the
  \<open>catch\<close> replaces whatever was thrown.
\<close>

definition refreshTokens ::
  "libs \<Rightarrow> configuration_t \<Rightarrow> nat \<Rightarrow> userModel \<Rightarrow> string \<Rightarrow> string \<Rightarrow> exn + AuthResult" where
  "refreshTokens L cfg now db userId e =
     (case (case findById db userId of
              Inl err \<Rightarrow> Inl err
            | Inr u \<Rightarrow> generateAuthResponse L cfg now u) of
        Inl err \<Rightarrow> Inl (UnauthorizedException ''Invalid refresh token'')
      | Inr r \<Rightarrow> Inr r)"

subsection \<open>Requests\<close>

text \<open>
  Of a request the model keeps the bearer token of its \<open>Authorization\<close> header, as
  \<open>ExtractJwt.fromAuthHeaderAsBearerToken()\<close> reads it, and the cookies cookie-parser
  found (\<open>req.cookies\<close> may be undefined).
\<close>

record Request =
  bearerToken :: "string option"
  cookies :: "(string \<rightharpoonup> string) option"

definition cookie_refresh_token :: "Request \<Rightarrow> string option" where
  "cookie_refresh_token req =
     (case cookies req of None \<Rightarrow> None | Some cs \<Rightarrow> cs ''refresh_token'')"

subsection \<open>auth/strategies/jwt.strategy.ts, auth/strategies/refresh-token.strategy.ts\<close>

record StrategyOptions =
  ignoreExpiration :: bool
  secretOrKey :: string
  passReqToCallback :: bool

definition JwtStrategy :: "configuration_t \<Rightarrow> exn + StrategyOptions" where
  "JwtStrategy cfg =
     (case secret (jwt cfg) of
        None \<Rightarrow> Inl (Error ''JWT secret is not configured'')
      | Some k \<Rightarrow>
          if k = [] then Inl (Error ''JWT secret is not configured'')
          else Inr \<lparr> ignoreExpiration = False, secretOrKey = k, passReqToCallback = False \<rparr>)"

definition RefreshTokenStrategy :: "configuration_t \<Rightarrow> exn + StrategyOptions" where
  "RefreshTokenStrategy cfg =
     (case refreshSecret (jwt cfg) of
        None \<Rightarrow> Inl (Error ''Refresh secret is not configured'')
      | Some k \<Rightarrow>
          if k = [] then Inl (Error ''Refresh secret is not configured'')
          else Inr \<lparr> ignoreExpiration = False, secretOrKey = k, passReqToCallback = True \<rparr>)"

record RequestUser =
  userId :: string
  userEmail :: string

record RefreshUser = RequestUser +
  userRefreshToken :: string

definition JwtStrategy_validate :: "userModel \<Rightarrow> Claims \<Rightarrow> exn + RequestUser" where
  "JwtStrategy_validate db payload =
     (case findById db (sub payload) of
        Inl err \<Rightarrow> Inl (UnauthorizedException ''Unauthorized'')
      | Inr u \<Rightarrow> Inr \<lparr> userId = sub payload, userEmail = email payload \<rparr>)"

definition RefreshTokenStrategy_validate ::
  "userModel \<Rightarrow> Request \<Rightarrow> Claims \<Rightarrow> exn + RefreshUser" where
  "RefreshTokenStrategy_validate db req payload =
     (case cookie_refresh_token req of
        None \<Rightarrow> Inl (UnauthorizedException ''Refresh token not found'')
      | Some refreshToken' \<Rightarrow>
          if refreshToken' = [] then Inl (UnauthorizedException ''Refresh token not found'')
          else (case findById db (sub payload) of
                  Inl err \<Rightarrow> Inl (UnauthorizedException ''Invalid refresh token'')
                | Inr u \<Rightarrow>
                    Inr \<lparr> userId = sub payload, userEmail = email payload,
                          userRefreshToken = refreshToken' \<rparr>))"

text \<open>
  passport-jwt under \<open>AuthGuard\<close>: no token, or a token that does not verify with the
  strategy's key and options, fails the request with a bare \<open>UnauthorizedException\<close>; an
  exception of \<open>validate\<close> is thrown on as it is.
\<close>

definition authenticate ::
  "libs \<Rightarrow> StrategyOptions \<Rightarrow> nat \<Rightarrow> string option \<Rightarrow> (Claims \<Rightarrow> exn + 'u) \<Rightarrow> exn + 'u" where
  "authenticate L opts now token validate_cb =
     (case token of
        None \<Rightarrow> Inl (UnauthorizedException ''Unauthorized'')
      | Some t \<Rightarrow>
          if t = [] then Inl (UnauthorizedException ''Unauthorized'')
          else (case jwt_verify L t (secretOrKey opts) (ignoreExpiration opts) now of
                  Inl err \<Rightarrow> Inl (UnauthorizedException ''Unauthorized'')
                | Inr payload \<Rightarrow> validate_cb payload))"

definition JwtAuthGuard ::
  "libs \<Rightarrow> StrategyOptions \<Rightarrow> nat \<Rightarrow> userModel \<Rightarrow> Request \<Rightarrow> exn + RequestUser" where
  "JwtAuthGuard L opts now db req =
     authenticate L opts now (bearerToken req) (JwtStrategy_validate db)"

definition RefreshTokenAuthGuard ::
  "libs \<Rightarrow> StrategyOptions \<Rightarrow> nat \<Rightarrow> userModel \<Rightarrow> Request \<Rightarrow> exn + RefreshUser" where
  "RefreshTokenAuthGuard L opts now db req =
     authenticate L opts now (cookie_refresh_token req) (RefreshTokenStrategy_validate db req)"

text \<open>
  Modelled from the spec: \<open>local.strategy.ts\<close> is not among the sources (its test is).
  Sign-in runs the credential validation and fails \<open>Unauthorized\<close> with the message
  \<open>Invalid email or password\<close> (as the test spells it) when it returns none.
\<close>

definition LocalStrategy_validate ::
  "libs \<Rightarrow> userModel \<Rightarrow> string \<Rightarrow> string \<Rightarrow> exn + UserDocument" where
  "LocalStrategy_validate L db e password =
     (case validateUser L db e password of
        None \<Rightarrow> Inl (UnauthorizedException ''Invalid email or password'')
      | Some u \<Rightarrow> Inr u)"

subsection \<open>auth/auth.controller.ts\<close>

text \<open>
  The handlers call \<open>res.cookie\<close> and \<open>res.clearCookie\<close>; an \<open>ExpressResponse\<close> is the
  list of these calls in order, and a handler returns its body with the response
  afterwards. \<open>maxAge\<close> is in milliseconds.
\<close>

record CookieOptions =
  httpOnly :: bool
  secure :: bool
  sameSite :: string
  maxAge :: "nat option"
  path :: string

datatype cookie_call =
    cookie string string CookieOptions
  | clearCookie string CookieOptions

type_synonym ExpressResponse = "cookie_call list"

record LogoutResponse =
  message :: string

definition AuthController_signUp ::
  "libs \<Rightarrow> configuration_t \<Rightarrow> nat \<Rightarrow> string \<Rightarrow> userModel \<Rightarrow> CreateUserDto \<Rightarrow> ExpressResponse
     \<Rightarrow> (exn + AuthResponseDto \<times> ExpressResponse) \<times> userModel" where
  "AuthController_signUp L cfg now newId db signUpDto res =
     (case signUp L cfg now newId db signUpDto of
        (Inl e, db') \<Rightarrow> (Inl e, db')
      | (Inr r, db') \<Rightarrow>
          (Inr (response r,
                res @ [cookie ''refresh_token'' (refreshToken r)
                         \<lparr> httpOnly = (nodeEnv cfg = ''production''),
                           secure = (nodeEnv cfg = ''production''),
                           sameSite = (if nodeEnv cfg = ''production'' then ''strict'' else ''lax''),
                           maxAge = Some (7 * 24 * 60 * 60 * 1000),
                           path = ''/'' \<rparr>]),
           db'))"

definition AuthController_signIn ::
  "libs \<Rightarrow> configuration_t \<Rightarrow> nat \<Rightarrow> UserDocument \<Rightarrow> ExpressResponse
     \<Rightarrow> exn + AuthResponseDto \<times> ExpressResponse" where
  "AuthController_signIn L cfg now req_user res =
     (case signIn L cfg now req_user of
        Inl e \<Rightarrow> Inl e
      | Inr r \<Rightarrow>
          Inr (response r,
               res @ [cookie ''refresh_token'' (refreshToken r)
                        \<lparr> httpOnly = (nodeEnv cfg = ''production''),
                          secure = (nodeEnv cfg = ''production''),
                          sameSite = (if nodeEnv cfg = ''production'' then ''strict'' else ''lax''),
                          maxAge = Some (7 * 24 * 60 * 60 * 1000),
                          path = ''/'' \<rparr>]))"

definition AuthController_refresh ::
  "libs \<Rightarrow> configuration_t \<Rightarrow> nat \<Rightarrow> userModel \<Rightarrow> 'a RequestUser_scheme \<Rightarrow> ExpressResponse
     \<Rightarrow> exn + AuthResponseDto \<times> ExpressResponse" where
  "AuthController_refresh L cfg now db req_user res =
     (case refreshTokens L cfg now db (userId req_user) (userEmail req_user) of
        Inl e \<Rightarrow> Inl e
      | Inr r \<Rightarrow>
          Inr (response r,
               res @ [cookie ''refresh_token'' (refreshToken r)
                        \<lparr> httpOnly = (nodeEnv cfg = ''production''),
                          secure = (nodeEnv cfg = ''production''),
                          sameSite = (if nodeEnv cfg = ''production'' then ''strict'' else ''lax''),
                          maxAge = Some (7 * 24 * 60 * 60 * 1000),
                          path = ''/'' \<rparr>]))"

text \<open>\<open>!req.cookies?.refresh_token\<close> holds for a missing cookie and for an empty one.\<close>

definition AuthController_logout ::
  "configuration_t \<Rightarrow> Request \<Rightarrow> ExpressResponse \<Rightarrow> exn + LogoutResponse \<times> ExpressResponse" where
  "AuthController_logout cfg req res =
     (if \<not> truthy (cookie_refresh_token req)
      then Inl (HttpException ''No refresh token found'' 401)
      else Inr (\<lparr> message = ''Logged out successfully'' \<rparr>,
                res @ [clearCookie ''refresh_token''
                         \<lparr> httpOnly = (nodeEnv cfg = ''production''),
                           secure = (nodeEnv cfg = ''production''),
                           sameSite = (if nodeEnv cfg = ''production'' then ''strict'' else ''lax''),
                           maxAge = None,
                           path = ''/'' \<rparr>]))"

text \<open>
  The sources hold a second \<open>AuthController\<close>, stored with
  \<open>auth-api/src/auth/auth.service.ts\<close>. It differs in the cookie options: \<open>httpOnly\<close> is
  always set and \<open>sameSite\<close> is always \<open>strict\<close>.
\<close>

definition AuthApiController_signUp ::
  "libs \<Rightarrow> configuration_t \<Rightarrow> nat \<Rightarrow> string \<Rightarrow> userModel \<Rightarrow> CreateUserDto \<Rightarrow> ExpressResponse
     \<Rightarrow> (exn + AuthResponseDto \<times> ExpressResponse) \<times> userModel" where
  "AuthApiController_signUp L cfg now newId db signUpDto res =
     (case signUp L cfg now newId db signUpDto of
        (Inl e, db') \<Rightarrow> (Inl e, db')
      | (Inr r, db') \<Rightarrow>
          (Inr (response r,
                res @ [cookie ''refresh_token'' (refreshToken r)
                         \<lparr> httpOnly = True,
                           secure = (nodeEnv cfg = ''production''),
                           sameSite = ''strict'',
                           maxAge = Some (7 * 24 * 60 * 60 * 1000),
                           path = ''/'' \<rparr>]),
           db'))"

definition AuthApiController_signIn ::
  "libs \<Rightarrow> configuration_t \<Rightarrow> nat \<Rightarrow> UserDocument \<Rightarrow> ExpressResponse
     \<Rightarrow> exn + AuthResponseDto \<times> ExpressResponse" where
  "AuthApiController_signIn L cfg now req_user res =
     (case signIn L cfg now req_user of
        Inl e \<Rightarrow> Inl e
      | Inr r \<Rightarrow>
          Inr (response r,
               res @ [cookie ''refresh_token'' (refreshToken r)
                        \<lparr> httpOnly = True,
                          secure = (nodeEnv cfg = ''production''),
                          sameSite = ''strict'',
                          maxAge = Some (7 * 24 * 60 * 60 * 1000),
                          path = ''/'' \<rparr>]))"

definition AuthApiController_refresh ::
  "libs \<Rightarrow> configuration_t \<Rightarrow> nat \<Rightarrow> userModel \<Rightarrow> 'a RequestUser_scheme \<Rightarrow> ExpressResponse
     \<Rightarrow> exn + AuthResponseDto \<times> ExpressResponse" where
  "AuthApiController_refresh L cfg now db req_user res =
     (case refreshTokens L cfg now db (userId req_user) (userEmail req_user) of
        Inl e \<Rightarrow> Inl e
      | Inr r \<Rightarrow>
          Inr (response r,
               res @ [cookie ''refresh_token'' (refreshToken r)
                        \<lparr> httpOnly = True,
                          secure = (nodeEnv cfg = ''production''),
                          sameSite = ''strict'',
                          maxAge = Some (7 * 24 * 60 * 60 * 1000),
                          path = ''/'' \<rparr>]))"

definition AuthApiController_logout ::
  "configuration_t \<Rightarrow> Request \<Rightarrow> ExpressResponse \<Rightarrow> exn + LogoutResponse \<times> ExpressResponse" where
  "AuthApiController_logout cfg req res =
     (if \<not> truthy (cookie_refresh_token req)
      then Inl (HttpException ''No refresh token found'' 401)
      else Inr (\<lparr> message = ''Logged out successfully'' \<rparr>,
                res @ [clearCookie ''refresh_token''
                         \<lparr> httpOnly = True,
                           secure = (nodeEnv cfg = ''production''),
                           sameSite = ''strict'',
                           maxAge = None,
                           path = ''/'' \<rparr>]))"

subsection \<open>Routes\<close>

text \<open>
  \<open>POST /auth/refresh\<close> runs the handler behind \<open>RefreshTokenAuthGuard\<close>, and
  \<open>GET /users/me\<close> and \<open>PATCH /users/me\<close> run theirs behind \<open>JwtAuthGuard\<close>; the guard's
  result is \<open>req.user\<close>.
\<close>

definition post_auth_refresh ::
  "libs \<Rightarrow> configuration_t \<Rightarrow> StrategyOptions \<Rightarrow> nat \<Rightarrow> userModel \<Rightarrow> Request \<Rightarrow> ExpressResponse
     \<Rightarrow> exn + AuthResponseDto \<times> ExpressResponse" where
  "post_auth_refresh L cfg opts now db req res =
     (case RefreshTokenAuthGuard L opts now db req of
        Inl e \<Rightarrow> Inl e
      | Inr req_user \<Rightarrow> AuthController_refresh L cfg now db req_user res)"

definition get_users_me ::
  "libs \<Rightarrow> StrategyOptions \<Rightarrow> nat \<Rightarrow> userModel \<Rightarrow> Request \<Rightarrow> exn + UserEntity" where
  "get_users_me L opts now db req =
     (case JwtAuthGuard L opts now db req of
        Inl e \<Rightarrow> Inl e
      | Inr req_user \<Rightarrow> getProfile db (userId req_user))"

definition patch_users_me ::
  "libs \<Rightarrow> StrategyOptions \<Rightarrow> nat \<Rightarrow> userModel \<Rightarrow> Request \<Rightarrow> UpdateUserDto
     \<Rightarrow> (exn + UserEntity) \<times> userModel" where
  "patch_users_me L opts now db req updateUserDto =
     (case JwtAuthGuard L opts now db req of
        Inl e \<Rightarrow> (Inl e, db)
      | Inr req_user \<Rightarrow> updateProfile now db (userId req_user) updateUserDto)"

subsection \<open>Startup\<close>

text \<open>
  \<open>app.module.ts\<close> loads the configuration with \<open>validate\<close>; the two strategies are built
  when the application starts, and a throwing constructor aborts the start.
\<close>

record app =
  app_config :: configuration_t
  app_jwt :: StrategyOptions
  app_refresh :: StrategyOptions

definition bootstrap :: "libs \<Rightarrow> env \<Rightarrow> exn + app" where
  "bootstrap L e =
     (case validate L e of
        Inl x \<Rightarrow> Inl x
      | Inr validated \<Rightarrow>
          (case JwtStrategy (configuration e) of
             Inl x \<Rightarrow> Inl x
           | Inr a \<Rightarrow>
               (case RefreshTokenStrategy (configuration e) of
                  Inl x \<Rightarrow> Inl x
                | Inr r \<Rightarrow>
                    Inr \<lparr> app_config = configuration e, app_jwt = a, app_refresh = r \<rparr>)))"

section \<open>Concrete inputs\<close>

text \<open>
  An environment that sets the database URI and gives both signing secrets the same
  32 characters; one with two different secrets; one whose access secret is too short;
  and the one with two secrets, run in production.
\<close>

definition env_same_secrets :: env where
  "env_same_secrets =
     [''MONGODB_URI'' \<mapsto> ''mongodb://localhost:27017/auth'',
      ''JWT_SECRET'' \<mapsto> ''0123456789abcdef0123456789abcdef'',
      ''JWT_REFRESH_SECRET'' \<mapsto> ''0123456789abcdef0123456789abcdef'']"

definition env_two_secrets :: env where
  "env_two_secrets =
     [''MONGODB_URI'' \<mapsto> ''mongodb://localhost:27017/auth'',
      ''JWT_SECRET'' \<mapsto> ''0123456789abcdef0123456789abcdef'',
      ''JWT_REFRESH_SECRET'' \<mapsto> ''fedcba9876543210fedcba9876543210'']"

definition env_short_secret :: env where
  "env_short_secret =
     [''MONGODB_URI'' \<mapsto> ''mongodb://localhost:27017/auth'',
      ''JWT_SECRET'' \<mapsto> ''too-short'',
      ''JWT_REFRESH_SECRET'' \<mapsto> ''fedcba9876543210fedcba9876543210'']"

definition env_production :: env where
  "env_production = env_two_secrets(''NODE_ENV'' \<mapsto> ''production'')"

text \<open>
  The strategy options these environments give: with two secrets, and with one secret for
  both keyspaces.
\<close>

definition access_opts :: StrategyOptions where
  "access_opts =
     \<lparr> ignoreExpiration = False, secretOrKey = ''0123456789abcdef0123456789abcdef'',
       passReqToCallback = False \<rparr>"

definition refresh_opts :: StrategyOptions where
  "refresh_opts =
     \<lparr> ignoreExpiration = False, secretOrKey = ''fedcba9876543210fedcba9876543210'',
       passReqToCallback = True \<rparr>"



text \<open>
  A sign-up request, the user it creates at time 2000 under the id \<open>u1\<close>, claims for that
  user issued at time 1000 with the refresh lifetime of seven days, and the two tokens that
  carry these claims.
\<close>

definition ann_signup :: CreateUserDto where
  "ann_signup =
     \<lparr> dto_email = ''a@b.com'', dto_name = ''Ann Lee'', dto_password = ''Secur3!pass'' \<rparr>"

definition alice :: UserDocument where
  "alice =
     \<lparr> doc_id = ''u1'', doc_email = ''a@b.com'', doc_name = ''Ann Lee'',
       doc_password = ''$2b$10$Secur3!pass'',
       doc_createdAt = Some 2000, doc_updatedAt = Some 2000 \<rparr>"

definition alice_claims :: Claims where
  "alice_claims = \<lparr> sub = ''u1'', email = ''a@b.com'', iat = 1000, exp = 605800 \<rparr>"

definition alice_refresh_token :: string where
  "alice_refresh_token =
     encodeToken sample_libs ''fedcba9876543210fedcba9876543210'' alice_claims"

definition alice_access_token :: string where
  "alice_access_token =
     encodeToken sample_libs ''0123456789abcdef0123456789abcdef'' alice_claims"

definition refresh_request :: Request where
  "refresh_request =
     \<lparr> bearerToken = None, cookies = Some [''refresh_token'' \<mapsto> alice_refresh_token] \<rparr>"

definition bearer_request :: Request where
  "bearer_request = \<lparr> bearerToken = Some alice_access_token, cookies = None \<rparr>"

text \<open>A request whose \<open>refresh_token\<close> cookie is present and empty.\<close>

definition empty_cookie_request :: Request where
  "empty_cookie_request =
     \<lparr> bearerToken = None, cookies = Some [''refresh_token'' \<mapsto> []] \<rparr>"

text \<open>The result of issuing tokens for that user at time 2000 with two secrets.\<close>

definition alice_issued :: AuthResult where
  "alice_issued =
     \<lparr> response =
         \<lparr> user = \<lparr> ent_id = ''u1'', ent_email = ''a@b.com'', ent_name = ''Ann Lee'',
                    ent_createdAt = Some 2000, ent_updatedAt = Some 2000 \<rparr>,
           access_token =
             ''HS256.u1,a@b%dcom,2000,5600.0123456789abcdef0123456789abcdef/HS256%du1%ca@b%%dcom%c2000%c5600'' \<rparr>,
       refreshToken =
         ''HS256.u1,a@b%dcom,2000,606800.fedcba9876543210fedcba9876543210/HS256%du1%ca@b%%dcom%c2000%c606800'' \<rparr>"

section \<open>The cookie table of the specification\<close>

text \<open>
  Following the specification's words (section 4.6, with the cookie's path and max-age of
  section 6): in production \<open>httpOnly\<close>, \<open>secure\<close> and \<open>sameSite=strict\<close>; otherwise
  neither \<open>httpOnly\<close> nor \<open>secure\<close>, and \<open>sameSite=lax\<close>; always the whole path and a
  max-age of seven days, here in milliseconds.
\<close>

definition spec_cookie_options :: "bool \<Rightarrow> CookieOptions" where
  "spec_cookie_options production =
     (if production
      then \<lparr> httpOnly = True, secure = True, sameSite = ''strict'',
             maxAge = Some (7 * 86400 * 1000), path = ''/'' \<rparr>
      else \<lparr> httpOnly = False, secure = False, sameSite = ''lax'',
             maxAge = Some (7 * 86400 * 1000), path = ''/'' \<rparr>)"

section \<open>Properties of the token codec\<close>

lemma escape_no_dot: "CHR ''.'' \<notin> set (escape s)"
  by (induction s) auto

lemma escape_no_comma: "CHR '','' \<notin> set (escape s)"
  by (induction s) auto

lemma unescape_escape: "unescape (escape s) = Some s"
  by (induction s) auto

lemma digit_cases: "d < 10 \<Longrightarrow> d \<in> {0, 1, 2, 3, 4, 5, 6, 7, 8, 9::nat}"
  by auto

lemma isDigit_digitChar: "d < 10 \<Longrightarrow> isDigit (digitChar d)"
  by (drule digit_cases) (auto simp: isDigit_def digitChar_def)

lemma of_char_digitChar: "d < 10 \<Longrightarrow> of_char (digitChar d) = 48 + d"
  by (drule digit_cases) (auto simp: digitChar_def)

lemma showNat_digits: "list_all isDigit (showNat n)"
  by (induction n rule: showNat.induct) (subst showNat.simps, simp add: isDigit_digitChar)

lemma showNat_nonempty: "showNat n \<noteq> []"
  by (subst showNat.simps) simp

lemma readNat_showNat: "readNat (showNat n) = Some n"
proof -
  have "foldl (\<lambda>a c. 10 * a + (of_char c - 48)) 0 (showNat n) = n"
  proof (induction n rule: showNat.induct)
    case (1 n)
    show ?case
    proof (cases "n < 10")
      case True
      then show ?thesis by (subst showNat.simps) (simp add: of_char_digitChar)
    next
      case False
      with 1 show ?thesis by (subst showNat.simps) (simp add: of_char_digitChar)
    qed
  qed
  then show ?thesis by (simp add: readNat_def showNat_digits showNat_nonempty)
qed

lemma digits_no_sep: "list_all isDigit s \<Longrightarrow> \<not> isDigit c \<Longrightarrow> c \<notin> set s"
  by (auto simp: list_all_iff)

lemma showNat_no_dot: "CHR ''.'' \<notin> set (showNat n)"
  by (rule digits_no_sep [OF showNat_digits]) (simp add: isDigit_def)

lemma showNat_no_comma: "CHR '','' \<notin> set (showNat n)"
  by (rule digits_no_sep [OF showNat_digits]) (simp add: isDigit_def)

lemma splitOn_no_sep: "c \<notin> set s \<Longrightarrow> splitOn c s = [s]"
  by (induction s) auto

lemma splitOn_append: "c \<notin> set s \<Longrightarrow> splitOn c (s @ c # t) = s # splitOn c t"
  by (induction s) auto

lemma encodeClaims_no_dot: "CHR ''.'' \<notin> set (encodeClaims c)"
  by (simp add: encodeClaims_def escape_no_dot showNat_no_dot)

lemma decodeClaims_encodeClaims: "decodeClaims (encodeClaims c) = Some c"
proof -
  have "splitOn CHR '','' (encodeClaims c) =
          [escape (sub c), escape (email c), showNat (iat c), showNat (exp c)]"
    unfolding encodeClaims_def
    by (simp add: splitOn_append splitOn_no_sep escape_no_comma showNat_no_comma)
  then show ?thesis
    by (simp add: decodeClaims_def unescape_escape readNat_showNat)
qed

lemma splitOn_encodeToken:
  "splitOn CHR ''.'' (encodeToken L key c) =
     [jwtHeader, encodeClaims c, escape (hmac L key (signingInput c))]"
proof -
  have h: "CHR ''.'' \<notin> set jwtHeader" by (simp add: jwtHeader_def)
  show ?thesis
    unfolding encodeToken_def signingInput_def
    by (simp add: splitOn_append h encodeClaims_no_dot splitOn_no_sep escape_no_dot)
qed

text \<open>
  Verifying a token that was encoded with \<open>key\<close>: the claims come back when the verifier's
  key gives the same signature and the token has not expired.
\<close>

lemma jwt_verify_encodeToken:
  "jwt_verify L (encodeToken L key c) key' ign now =
     (if hmac L key (signingInput c) \<noteq> hmac L key' (signingInput c)
      then Inl (JsonWebTokenError ''invalid signature'')
      else if \<not> ign \<and> exp c \<le> now then Inl TokenExpiredError
      else Inr c)"
  by (simp add: jwt_verify_def splitOn_encodeToken decodeClaims_encodeClaims unescape_escape
      signingInput_def)

lemma jwt_verify_nonempty: "jwt_verify L t key ign now = Inr c \<Longrightarrow> t \<noteq> []"
  by (auto simp: jwt_verify_def)

section \<open>Startup validation\<close>

text \<open>
  C1, counterexample. The claim says that validation rejects a configuration whose two
  secrets are equal. The environment \<open>env_same_secrets\<close> gives both secrets the same 32
  characters; \<open>validate\<close> returns the instance, and the configuration holds the same key
  for both keyspaces.
\<close>

theorem C1_equal_secrets_accepted:
  "validate sample_libs env_same_secrets =
     Inr \<lparr> MONGODB_URI = Some ''mongodb://localhost:27017/auth'',
           JWT_SECRET = Some ''0123456789abcdef0123456789abcdef'',
           JWT_EXPIRES_IN = ''1h'',
           JWT_REFRESH_SECRET = Some ''0123456789abcdef0123456789abcdef'',
           JWT_REFRESH_EXPIRES_IN = ''7d'',
           PORT = 3000, NODE_ENV = ''development'', LOG_LEVEL = ''info'', CORS_ORIGIN = ''*'' \<rparr>
   \<and> secret (jwt (configuration env_same_secrets)) =
       refreshSecret (jwt (configuration env_same_secrets))"
  by (simp add: validate_def plainToInstance_def validateSync_def withDefault_def orElse_def
      IsString_def IsNotEmpty_def MinLength_def isTimeString_def isDigit_def IsEnum_def
      Environment_def LogLevel_def env_same_secrets_def configuration_def)

text \<open>
  C1, as amended. Validation rejects the configuration whenever the access-signing secret
  or the refresh-signing secret is unset or shorter than 32 characters; in every
  configuration that passes, both keys are set and have at least 32 characters. The two
  secrets are not compared with each other.
\<close>

theorem C1_validate_secrets:
  "((case config ''JWT_SECRET'' of None \<Rightarrow> True | Some s \<Rightarrow> length s < 32) \<or>
    (case config ''JWT_REFRESH_SECRET'' of None \<Rightarrow> True | Some s \<Rightarrow> length s < 32)
     \<longrightarrow> (\<exists>m. validate L config = Inl (Error m))) \<and>
   (validate L config = Inr c \<longrightarrow>
     (\<exists>a r. secret (jwt (configuration config)) = Some a \<and> 32 \<le> length a \<and>
            refreshSecret (jwt (configuration config)) = Some r \<and> 32 \<le> length r))"
  by (auto simp: validate_def plainToInstance_def validateSync_def Let_def configuration_def
      IsString_def MinLength_def split: option.splits if_splits)

text \<open>
  Witness for C1: the short access secret of \<open>env_short_secret\<close> is rejected, and
  \<open>env_two_secrets\<close> passes with two keys of 32 characters.
\<close>

theorem C1_validate_secrets_witness:
  "validate sample_libs env_short_secret = Inl (Error ''JWT_SECRET'') \<and>
   isl (validate sample_libs env_short_secret) \<and>
   \<not> isl (validate sample_libs env_two_secrets) \<and>
   secret (jwt (configuration env_two_secrets)) = Some ''0123456789abcdef0123456789abcdef'' \<and>
   refreshSecret (jwt (configuration env_two_secrets)) = Some ''fedcba9876543210fedcba9876543210''"
  using C1_validate_secrets [of env_short_secret sample_libs]
    C1_validate_secrets [of env_two_secrets sample_libs "projr (validate sample_libs env_two_secrets)"]
  by (simp add: validate_def plainToInstance_def validateSync_def withDefault_def orElse_def
      IsString_def IsNotEmpty_def MinLength_def isTimeString_def isDigit_def IsEnum_def
      Environment_def LogLevel_def env_short_secret_def env_two_secrets_def configuration_def)

section \<open>Issuance and startup\<close>

lemma JwtService_sign_Inr:
  "JwtService_sign L m p so now = Inr t \<Longrightarrow>
     \<exists>k secs. (if truthy (so_secret so) then so_secret so else mod_secret m) = Some k \<and> k \<noteq> [] \<and>
       timespan (case so_expiresIn so of None \<Rightarrow> mod_expiresIn m | Some e \<Rightarrow> e) = Some secs \<and>
       t = encodeToken L k \<lparr> sub = sub p, email = email p, iat = now, exp = now + secs \<rparr>"
  by (auto simp: JwtService_sign_def jwt_sign_def Let_def split: option.splits if_splits)

text \<open>
  A successful issuance signs both tokens over the payload of the user: the access token
  with the access secret, the refresh token with the refresh secret.
\<close>

lemma generateAuthResponse_Inr:
  assumes "generateAuthResponse L cfg now u = Inr r"
    and "secret (jwt cfg) = Some ka" and "refreshSecret (jwt cfg) = Some kr" and "kr \<noteq> []"
  shows "\<exists>la lr.
     timespan (expiresIn (jwt cfg)) = Some la \<and> timespan (refreshExpiresIn (jwt cfg)) = Some lr \<and>
     user (response r) = toUserEntity u \<and>
     access_token (response r) =
       encodeToken L ka \<lparr> sub = doc_id u, email = doc_email u, iat = now, exp = now + la \<rparr> \<and>
     refreshToken r =
       encodeToken L kr \<lparr> sub = doc_id u, email = doc_email u, iat = now, exp = now + lr \<rparr>"
  using assms
  by (auto simp: generateAuthResponse_def Let_def jwtModuleOptions_def truthy_def
      split: sum.splits dest!: JwtService_sign_Inr)

lemma bootstrap_Inr:
  assumes "bootstrap L e = Inr a"
  shows "\<exists>ka kr. secret (jwt (app_config a)) = Some ka \<and> ka \<noteq> [] \<and>
           refreshSecret (jwt (app_config a)) = Some kr \<and> kr \<noteq> [] \<and>
           app_jwt a = \<lparr> ignoreExpiration = False, secretOrKey = ka, passReqToCallback = False \<rparr> \<and>
           app_refresh a = \<lparr> ignoreExpiration = False, secretOrKey = kr, passReqToCallback = True \<rparr>"
  using assms
  by (auto simp: bootstrap_def JwtStrategy_def RefreshTokenStrategy_def
      split: sum.splits option.splits if_splits)

text \<open>The concrete inputs, evaluated.\<close>

lemma bootstrap_two_secrets:
  "bootstrap sample_libs env_two_secrets =
     Inr \<lparr> app_config = configuration env_two_secrets, app_jwt = access_opts,
           app_refresh = refresh_opts \<rparr>"
  by (simp add: bootstrap_def validate_def plainToInstance_def validateSync_def withDefault_def
      orElse_def IsString_def IsNotEmpty_def MinLength_def isTimeString_def isDigit_def IsEnum_def
      Environment_def LogLevel_def env_two_secrets_def configuration_def JwtStrategy_def
      RefreshTokenStrategy_def access_opts_def refresh_opts_def)


lemma strategies_two_secrets:
  "JwtStrategy (configuration env_two_secrets) = Inr access_opts \<and>
   RefreshTokenStrategy (configuration env_two_secrets) = Inr refresh_opts"
  by (simp add: JwtStrategy_def RefreshTokenStrategy_def configuration_def env_two_secrets_def
      access_opts_def refresh_opts_def)

lemma generate_alice:
  "generateAuthResponse sample_libs (configuration env_two_secrets) 2000 alice = Inr alice_issued"
  by (simp add: generateAuthResponse_def JwtService_sign_def jwtModuleOptions_def configuration_def
      env_two_secrets_def withDefault_def truthy_def jwt_sign_def timespan_def isTimeString_def
      isDigit_def readNat_def unitSeconds_def encodeToken_def signingInput_def jwtHeader_def
      encodeClaims_def showNat.simps digitChar_def sample_libs_def alice_def toUserEntity_def
      alice_issued_def)

lemma signUp_ann:
  "signUp sample_libs (configuration env_two_secrets) 2000 ''u1'' [] ann_signup
     = (Inr alice_issued, [alice])"
  by (simp add: signUp_def findByEmail_def create_def Let_def ann_signup_def toLowerCase_def
      lowerChar_def trim_def isSpace_def generateAuthResponse_def JwtService_sign_def
      jwtModuleOptions_def configuration_def env_two_secrets_def withDefault_def truthy_def
      jwt_sign_def timespan_def isTimeString_def isDigit_def readNat_def unitSeconds_def
      encodeToken_def signingInput_def jwtHeader_def encodeClaims_def showNat.simps digitChar_def
      sample_libs_def alice_def toUserEntity_def alice_issued_def)

lemma generate_alice_production:
  "generateAuthResponse sample_libs (configuration env_production) 2000 alice = Inr alice_issued"
  by (simp add: generateAuthResponse_def JwtService_sign_def jwtModuleOptions_def configuration_def
      env_production_def env_two_secrets_def withDefault_def truthy_def jwt_sign_def timespan_def
      isTimeString_def isDigit_def readNat_def unitSeconds_def encodeToken_def signingInput_def
      jwtHeader_def encodeClaims_def showNat.simps digitChar_def sample_libs_def alice_def
      toUserEntity_def alice_issued_def)

lemma nodeEnv_concrete:
  "nodeEnv (configuration env_two_secrets) = ''development'' \<and>
   nodeEnv (configuration env_production) = ''production''"
  by (simp add: configuration_def env_production_def env_two_secrets_def withDefault_def
      orElse_def)

lemma alice_refresh_token_verifies:
  "jwt_verify sample_libs alice_refresh_token (secretOrKey refresh_opts) ign 2000 = Inr alice_claims"
  by (simp add: alice_refresh_token_def jwt_verify_encodeToken alice_claims_def refresh_opts_def)

lemma alice_access_token_verifies:
  "jwt_verify sample_libs alice_access_token (secretOrKey access_opts) ign 2000 = Inr alice_claims"
  by (simp add: alice_access_token_def jwt_verify_encodeToken alice_claims_def access_opts_def)

lemma alice_refresh_token_nonempty: "alice_refresh_token \<noteq> []"
  by (simp add: alice_refresh_token_def encodeToken_def signingInput_def jwtHeader_def)

lemma alice_access_token_nonempty: "alice_access_token \<noteq> []"
  by (simp add: alice_access_token_def encodeToken_def signingInput_def jwtHeader_def)

section \<open>Refresh of a user who is gone\<close>

text \<open>
  C2, counterexample. The claim gives the failure the message \<open>user not found\<close>. A
  refresh token that verifies, presented when the collection has no user \<open>u1\<close>: the route
  and the service both fail with \<open>Invalid refresh token\<close>, because the \<open>catch\<close> around the
  lookup replaces the exception.
\<close>

theorem C2_message_is_invalid_refresh_token:
  "jwt_verify sample_libs alice_refresh_token (secretOrKey refresh_opts)
      (ignoreExpiration refresh_opts) 2000 = Inr alice_claims \<and>
   findById [] (sub alice_claims) = Inl (NotFoundException ''User not found'') \<and>
   post_auth_refresh sample_libs (configuration env_two_secrets) refresh_opts 2000 []
       refresh_request []
     = Inl (UnauthorizedException ''Invalid refresh token'') \<and>
   refreshTokens sample_libs (configuration env_two_secrets) 2000 [] ''u1'' ''a@b.com''
     = Inl (UnauthorizedException ''Invalid refresh token'')"
  by (simp add: alice_refresh_token_verifies alice_refresh_token_nonempty post_auth_refresh_def
      RefreshTokenAuthGuard_def authenticate_def RefreshTokenStrategy_validate_def
      refresh_request_def cookie_refresh_token_def findById_def refreshTokens_def)

text \<open>
  C2, as amended. For every refresh call whose refresh token parses successfully but whose
  subject no longer resolves through \<open>findById\<close>, the guard, the route and the service fail
  with Unauthorized (status 401) carrying the message \<open>Invalid refresh token\<close>; the result
  is the exception, so no token pair is issued and no cookie is written.
\<close>

theorem C2_refresh_rejects_missing_subject:
  "jwt_verify L t (secretOrKey opts) (ignoreExpiration opts) now = Inr c \<and>
   cookie_refresh_token req = Some t \<and>
   findById db (sub c) = Inl (NotFoundException ''User not found'')
   \<longrightarrow> RefreshTokenAuthGuard L opts now db req
         = Inl (UnauthorizedException ''Invalid refresh token'') \<and>
       post_auth_refresh L cfg opts now db req res
         = Inl (UnauthorizedException ''Invalid refresh token'') \<and>
       refreshTokens L cfg now db (sub c) (email c)
         = Inl (UnauthorizedException ''Invalid refresh token'') \<and>
       getStatus (UnauthorizedException ''Invalid refresh token'') = 401"
  by (auto simp: post_auth_refresh_def RefreshTokenAuthGuard_def authenticate_def
      RefreshTokenStrategy_validate_def refreshTokens_def dest: jwt_verify_nonempty)

text \<open>Witness for C2: the refresh token of \<open>u1\<close> against the empty collection.\<close>

theorem C2_refresh_rejects_missing_subject_witness:
  "jwt_verify sample_libs alice_refresh_token (secretOrKey refresh_opts)
      (ignoreExpiration refresh_opts) 2000 = Inr alice_claims \<and>
   cookie_refresh_token refresh_request = Some alice_refresh_token \<and>
   findById [] (sub alice_claims) = Inl (NotFoundException ''User not found'') \<and>
   RefreshTokenAuthGuard sample_libs refresh_opts 2000 [] refresh_request
     = Inl (UnauthorizedException ''Invalid refresh token'') \<and>
   post_auth_refresh sample_libs (configuration env_two_secrets) refresh_opts 2000 []
       refresh_request []
     = Inl (UnauthorizedException ''Invalid refresh token'')"
proof -
  have h: "jwt_verify sample_libs alice_refresh_token (secretOrKey refresh_opts)
             (ignoreExpiration refresh_opts) 2000 = Inr alice_claims \<and>
           cookie_refresh_token refresh_request = Some alice_refresh_token \<and>
           findById [] (sub alice_claims) = Inl (NotFoundException ''User not found'')"
    by (simp add: alice_refresh_token_verifies refresh_request_def cookie_refresh_token_def
        findById_def)
  from h C2_refresh_rejects_missing_subject
         [of sample_libs alice_refresh_token refresh_opts 2000 alice_claims refresh_request "[]"
             "configuration env_two_secrets" "[]"]
  show ?thesis by simp
qed

section \<open>The refresh cookie\<close>

text \<open>
  C3, counterexample. The claim selects \<open>httpOnly\<close> and \<open>sameSite\<close> by environment for
  every sign-in. In development, the sign-in handler of the controller stored with
  \<open>auth-api/src/auth/auth.service.ts\<close> writes the cookie with \<open>httpOnly = true\<close> and
  \<open>sameSite = strict\<close>.
\<close>

theorem C3_auth_api_cookie_in_development:
  "nodeEnv (configuration env_two_secrets) = ''development'' \<and>
   AuthApiController_signIn sample_libs (configuration env_two_secrets) 2000 alice [] =
     Inr (response alice_issued,
          [cookie ''refresh_token'' (refreshToken alice_issued)
             \<lparr> httpOnly = True, secure = False, sameSite = ''strict'',
               maxAge = Some 604800000, path = ''/'' \<rparr>])"
  by (simp add: AuthApiController_signIn_def signIn_def generate_alice nodeEnv_concrete)

text \<open>
  C3, as amended. In \<open>backend/src/auth/auth.controller.ts\<close>, every successful sign-up,
  sign-in and refresh writes the refresh token of the issued pair as the cookie
  \<open>refresh_token\<close> with the options of the specification's table for the environment
  (path \<open>/\<close>, max-age seven days), and a failed one writes nothing. The controller stored
  with \<open>auth-api/src/auth/auth.service.ts\<close> writes the same cookie with \<open>httpOnly\<close> set
  and \<open>sameSite = strict\<close> in every environment; only \<open>secure\<close> follows the environment.
\<close>

theorem C3_cookie_attributes:
  "AuthController_signUp L cfg now newId db dto res =
     (case signUp L cfg now newId db dto of
        (Inl e, db') \<Rightarrow> (Inl e, db')
      | (Inr r, db') \<Rightarrow>
          (Inr (response r,
                res @ [cookie ''refresh_token'' (refreshToken r)
                         (spec_cookie_options (nodeEnv cfg = ''production''))]), db')) \<and>
   AuthController_signIn L cfg now u res =
     (case signIn L cfg now u of
        Inl e \<Rightarrow> Inl e
      | Inr r \<Rightarrow>
          Inr (response r,
               res @ [cookie ''refresh_token'' (refreshToken r)
                        (spec_cookie_options (nodeEnv cfg = ''production''))])) \<and>
   AuthController_refresh L cfg now db ru res =
     (case refreshTokens L cfg now db (userId ru) (userEmail ru) of
        Inl e \<Rightarrow> Inl e
      | Inr r \<Rightarrow>
          Inr (response r,
               res @ [cookie ''refresh_token'' (refreshToken r)
                        (spec_cookie_options (nodeEnv cfg = ''production''))])) \<and>
   AuthApiController_signUp L cfg now newId db dto res =
     (case signUp L cfg now newId db dto of
        (Inl e, db') \<Rightarrow> (Inl e, db')
      | (Inr r, db') \<Rightarrow>
          (Inr (response r,
                res @ [cookie ''refresh_token'' (refreshToken r)
                         ((spec_cookie_options (nodeEnv cfg = ''production''))
                            \<lparr> httpOnly := True, sameSite := ''strict'' \<rparr>)]), db')) \<and>
   AuthApiController_signIn L cfg now u res =
     (case signIn L cfg now u of
        Inl e \<Rightarrow> Inl e
      | Inr r \<Rightarrow>
          Inr (response r,
               res @ [cookie ''refresh_token'' (refreshToken r)
                        ((spec_cookie_options (nodeEnv cfg = ''production''))
                           \<lparr> httpOnly := True, sameSite := ''strict'' \<rparr>)])) \<and>
   AuthApiController_refresh L cfg now db ru res =
     (case refreshTokens L cfg now db (userId ru) (userEmail ru) of
        Inl e \<Rightarrow> Inl e
      | Inr r \<Rightarrow>
          Inr (response r,
               res @ [cookie ''refresh_token'' (refreshToken r)
                        ((spec_cookie_options (nodeEnv cfg = ''production''))
                           \<lparr> httpOnly := True, sameSite := ''strict'' \<rparr>)]))"
  by (simp add: AuthController_signUp_def AuthController_signIn_def AuthController_refresh_def
      AuthApiController_signUp_def AuthApiController_signIn_def AuthApiController_refresh_def
      spec_cookie_options_def split: sum.splits prod.splits)

text \<open>
  The theorem at concrete inputs: the backend's sign-up and sign-in in development and in
  production.
\<close>

theorem C3_cookie_attributes_witness:
  "AuthController_signUp sample_libs (configuration env_two_secrets) 2000 ''u1'' [] ann_signup []
     = (Inr (response alice_issued,
             [cookie ''refresh_token'' (refreshToken alice_issued)
                \<lparr> httpOnly = False, secure = False, sameSite = ''lax'',
                  maxAge = Some 604800000, path = ''/'' \<rparr>]), [alice]) \<and>
   AuthController_signIn sample_libs (configuration env_two_secrets) 2000 alice []
     = Inr (response alice_issued,
            [cookie ''refresh_token'' (refreshToken alice_issued)
               \<lparr> httpOnly = False, secure = False, sameSite = ''lax'',
                 maxAge = Some 604800000, path = ''/'' \<rparr>]) \<and>
   AuthController_signIn sample_libs (configuration env_production) 2000 alice []
     = Inr (response alice_issued,
            [cookie ''refresh_token'' (refreshToken alice_issued)
               \<lparr> httpOnly = True, secure = True, sameSite = ''strict'',
                 maxAge = Some 604800000, path = ''/'' \<rparr>])"
  using C3_cookie_attributes
         [where L = sample_libs and cfg = "configuration env_two_secrets" and now = 2000
            and newId = "''u1''" and db = "[]" and dto = ann_signup and res = "[]",
          THEN conjunct1]
       C3_cookie_attributes
         [where L = sample_libs and cfg = "configuration env_two_secrets" and now = 2000
            and u = alice and res = "[]",
          THEN conjunct2, THEN conjunct1]
       C3_cookie_attributes
         [where L = sample_libs and cfg = "configuration env_production" and now = 2000
            and u = alice and res = "[]",
          THEN conjunct2, THEN conjunct1]
  by (simp add: signUp_ann signIn_def generate_alice generate_alice_production nodeEnv_concrete
      spec_cookie_options_def)

section \<open>Logout\<close>

text \<open>
  C4, counterexample. The claim lets logout fail only when the cookie is entirely absent.
  A request whose \<open>refresh_token\<close> cookie is present with the empty value fails with
  \<open>No refresh token found\<close>: \<open>!req.cookies?.refresh_token\<close> holds for the empty string.
\<close>

theorem C4_empty_cookie_is_rejected:
  "cookie_refresh_token empty_cookie_request = Some [] \<and>
   AuthController_logout (configuration env_two_secrets) empty_cookie_request []
     = Inl (HttpException ''No refresh token found'' 401)"
  by (simp add: empty_cookie_request_def cookie_refresh_token_def AuthController_logout_def
      truthy_def)

text \<open>
  C4, as amended. Logout fails with status 401 and the message \<open>No refresh token found\<close>
  if and only if the \<open>refresh_token\<close> cookie is absent or empty; for every request with a
  non-empty cookie value, whatever the value is (it is never parsed), logout clears the
  cookie and returns \<open>Logged out successfully\<close>. Both controllers agree on this; they
  differ in the options of the clearing call as they do for the cookie itself.
\<close>

theorem C4_logout:
  "AuthController_logout cfg req res =
     (if cookie_refresh_token req = None \<or> cookie_refresh_token req = Some []
      then Inl (HttpException ''No refresh token found'' 401)
      else Inr (\<lparr> message = ''Logged out successfully'' \<rparr>,
                res @ [clearCookie ''refresh_token''
                         ((spec_cookie_options (nodeEnv cfg = ''production''))
                            \<lparr> maxAge := None \<rparr>)])) \<and>
   getStatus (HttpException ''No refresh token found'' 401) = 401 \<and>
   AuthApiController_logout cfg req res =
     (if cookie_refresh_token req = None \<or> cookie_refresh_token req = Some []
      then Inl (HttpException ''No refresh token found'' 401)
      else Inr (\<lparr> message = ''Logged out successfully'' \<rparr>,
                res @ [clearCookie ''refresh_token''
                         ((spec_cookie_options (nodeEnv cfg = ''production''))
                            \<lparr> httpOnly := True, sameSite := ''strict'', maxAge := None \<rparr>)]))"
  by (auto simp: AuthController_logout_def AuthApiController_logout_def truthy_def
      spec_cookie_options_def split: option.splits)

text \<open>
  The theorem at concrete inputs: no cookies at all, and a cookie that is no token.
\<close>

theorem C4_logout_witness:
  "AuthController_logout (configuration env_two_secrets) \<lparr> bearerToken = None, cookies = None \<rparr> []
     = Inl (HttpException ''No refresh token found'' 401) \<and>
   AuthController_logout (configuration env_two_secrets)
       \<lparr> bearerToken = None, cookies = Some [''refresh_token'' \<mapsto> ''not-a-token''] \<rparr> []
     = Inr (\<lparr> message = ''Logged out successfully'' \<rparr>,
            [clearCookie ''refresh_token''
               \<lparr> httpOnly = False, secure = False, sameSite = ''lax'', maxAge = None,
                 path = ''/'' \<rparr>])"
  using C4_logout [of "configuration env_two_secrets" "\<lparr> bearerToken = None, cookies = None \<rparr>" "[]"]
    C4_logout [of "configuration env_two_secrets"
      "\<lparr> bearerToken = None, cookies = Some [''refresh_token'' \<mapsto> ''not-a-token''] \<rparr>" "[]"]
  by (simp add: cookie_refresh_token_def spec_cookie_options_def nodeEnv_concrete)

section \<open>Keyspace isolation\<close>




section \<open>Tokens of a user who is gone\<close>

text \<open>
  C6. For every request presenting a token with a valid signature and unexpired lifetime
  whose subject the user store no longer resolves, the access guard fails Unauthorized,
  and likewise the refresh guard; both exceptions have status 401.
\<close>

theorem C6_deleted_user_invalidation:
  "(jwt_verify L t (secretOrKey opts) (ignoreExpiration opts) now = Inr c \<and>
    bearerToken req = Some t \<and>
    findById db (sub c) = Inl (NotFoundException ''User not found'')
    \<longrightarrow> JwtAuthGuard L opts now db req = Inl (UnauthorizedException ''Unauthorized'')) \<and>
   (jwt_verify L t (secretOrKey opts) (ignoreExpiration opts) now = Inr c \<and>
    cookie_refresh_token req = Some t \<and>
    findById db (sub c) = Inl (NotFoundException ''User not found'')
    \<longrightarrow> RefreshTokenAuthGuard L opts now db req
          = Inl (UnauthorizedException ''Invalid refresh token'')) \<and>
   getStatus (UnauthorizedException ''Unauthorized'') = 401 \<and>
   getStatus (UnauthorizedException ''Invalid refresh token'') = 401"
  by (auto simp: JwtAuthGuard_def RefreshTokenAuthGuard_def authenticate_def
      JwtStrategy_validate_def RefreshTokenStrategy_validate_def dest: jwt_verify_nonempty)

text \<open>
  Witness for C6: the tokens of \<open>u1\<close> are admitted while the user is stored and rejected
  against the empty collection.
\<close>

theorem C6_deleted_user_invalidation_witness:
  "jwt_verify sample_libs alice_access_token (secretOrKey access_opts)
      (ignoreExpiration access_opts) 2000 = Inr alice_claims \<and>
   bearerToken bearer_request = Some alice_access_token \<and>
   jwt_verify sample_libs alice_refresh_token (secretOrKey refresh_opts)
      (ignoreExpiration refresh_opts) 2000 = Inr alice_claims \<and>
   cookie_refresh_token refresh_request = Some alice_refresh_token \<and>
   findById [] (sub alice_claims) = Inl (NotFoundException ''User not found'') \<and>
   JwtAuthGuard sample_libs access_opts 2000 [alice] bearer_request
     = Inr \<lparr> userId = ''u1'', userEmail = ''a@b.com'' \<rparr> \<and>
   JwtAuthGuard sample_libs access_opts 2000 [] bearer_request
     = Inl (UnauthorizedException ''Unauthorized'') \<and>
   RefreshTokenAuthGuard sample_libs refresh_opts 2000 [] refresh_request
     = Inl (UnauthorizedException ''Invalid refresh token'')"
proof -
  have h1: "jwt_verify sample_libs alice_access_token (secretOrKey access_opts)
              (ignoreExpiration access_opts) 2000 = Inr alice_claims \<and>
            bearerToken bearer_request = Some alice_access_token \<and>
            findById [] (sub alice_claims) = Inl (NotFoundException ''User not found'')"
    by (simp add: alice_access_token_verifies bearer_request_def findById_def)
  have h2: "jwt_verify sample_libs alice_refresh_token (secretOrKey refresh_opts)
              (ignoreExpiration refresh_opts) 2000 = Inr alice_claims \<and>
            cookie_refresh_token refresh_request = Some alice_refresh_token \<and>
            findById [] (sub alice_claims) = Inl (NotFoundException ''User not found'')"
    by (simp add: alice_refresh_token_verifies refresh_request_def cookie_refresh_token_def
        findById_def)
  have ok: "JwtAuthGuard sample_libs access_opts 2000 [alice] bearer_request
              = Inr \<lparr> userId = ''u1'', userEmail = ''a@b.com'' \<rparr>"
    by (simp add: JwtAuthGuard_def authenticate_def bearer_request_def
        alice_access_token_nonempty alice_access_token_verifies JwtStrategy_validate_def)
       (simp add: findById_def alice_def alice_claims_def)
  from h1 h2 ok
    C6_deleted_user_invalidation
      [of sample_libs alice_access_token access_opts 2000 alice_claims bearer_request "[]"]
    C6_deleted_user_invalidation
      [of sample_libs alice_refresh_token refresh_opts 2000 alice_claims refresh_request "[]"]
  show ?thesis by simp
qed

section \<open>Failed sign-in\<close>

text \<open>
  C7. Take two sign-in attempts, one with an email that resolves to no user and one with a
  registered email and a password that fails verification. Credential validation returns
  none in both, and the strategy fails both with the same exception, Unauthorized with the
  message \<open>Invalid email or password\<close>: the two results are equal.
\<close>

theorem C7_signin_failures_indistinguishable:
  "findByEmail db e1 = None \<and> findByEmail db e2 = Some u \<and>
   \<not> bcrypt_compare L p2 (doc_password u)
   \<longrightarrow> validateUser L db e1 p1 = None \<and> validateUser L db e2 p2 = None \<and>
       LocalStrategy_validate L db e1 p1
         = Inl (UnauthorizedException ''Invalid email or password'') \<and>
       LocalStrategy_validate L db e2 p2
         = Inl (UnauthorizedException ''Invalid email or password'') \<and>
       LocalStrategy_validate L db e1 p1 = LocalStrategy_validate L db e2 p2"
  by (simp add: validateUser_def LocalStrategy_validate_def validatePassword_def)

text \<open>
  Witness for C7: an unknown email, and the registered email with a wrong password; with
  the right password the same user signs in.
\<close>

theorem C7_signin_failures_indistinguishable_witness:
  "findByEmail [alice] ''nobody@b.com'' = None \<and>
   findByEmail [alice] ''A@B.com'' = Some alice \<and>
   \<not> bcrypt_compare sample_libs ''wrong-password'' (doc_password alice) \<and>
   LocalStrategy_validate sample_libs [alice] ''nobody@b.com'' ''Secur3!pass''
     = Inl (UnauthorizedException ''Invalid email or password'') \<and>
   LocalStrategy_validate sample_libs [alice] ''A@B.com'' ''wrong-password''
     = Inl (UnauthorizedException ''Invalid email or password'') \<and>
   LocalStrategy_validate sample_libs [alice] ''A@B.com'' ''Secur3!pass'' = Inr alice"
proof -
  have h: "findByEmail [alice] ''nobody@b.com'' = None \<and>
           findByEmail [alice] ''A@B.com'' = Some alice \<and>
           \<not> bcrypt_compare sample_libs ''wrong-password'' (doc_password alice)"
    by (simp add: findByEmail_def toLowerCase_def lowerChar_def trim_def isSpace_def alice_def
        sample_libs_def)
  have ok: "LocalStrategy_validate sample_libs [alice] ''A@B.com'' ''Secur3!pass'' = Inr alice"
    by (simp add: LocalStrategy_validate_def validateUser_def validatePassword_def
        findByEmail_def toLowerCase_def lowerChar_def trim_def isSpace_def alice_def
        sample_libs_def)
  from h ok
    C7_signin_failures_indistinguishable
      [of "[alice]" "''nobody@b.com''" "''A@B.com''" alice sample_libs "''wrong-password''"
          "''Secur3!pass''"]
  show ?thesis by simp
qed

section \<open>Expired tokens\<close>

lemma jwt_verify_expired:
  "jwt_verify L t k True now = Inr c \<Longrightarrow> exp c \<le> now \<Longrightarrow>
   jwt_verify L t k False now = Inl TokenExpiredError"
  by (auto simp: jwt_verify_def split: list.splits option.splits if_splits)

text \<open>
  C8. Both strategies are built with \<open>ignoreExpiration: false\<close>, and they are the only
  places where a token is parsed. For every token that is well formed and correctly signed
  for a keyspace (it parses when expiry is left aside) and whose \<open>exp\<close> lies in the past,
  parsing with the strategy's options fails as expired and the guard rejects the request,
  in the access keyspace and in the refresh keyspace.
\<close>

theorem C8_expiry_enforced:
  "(JwtStrategy cfg = Inr oa \<longrightarrow> \<not> ignoreExpiration oa) \<and>
   (RefreshTokenStrategy cfg = Inr orf \<longrightarrow> \<not> ignoreExpiration orf) \<and>
   (JwtStrategy cfg = Inr oa \<and> jwt_verify L t (secretOrKey oa) True now = Inr c \<and>
    exp c < now \<and> bearerToken req = Some t
    \<longrightarrow> jwt_verify L t (secretOrKey oa) (ignoreExpiration oa) now = Inl TokenExpiredError \<and>
        JwtAuthGuard L oa now db req = Inl (UnauthorizedException ''Unauthorized'')) \<and>
   (RefreshTokenStrategy cfg = Inr orf \<and> jwt_verify L t' (secretOrKey orf) True now = Inr c' \<and>
    exp c' < now \<and> cookie_refresh_token req' = Some t'
    \<longrightarrow> jwt_verify L t' (secretOrKey orf) (ignoreExpiration orf) now = Inl TokenExpiredError \<and>
        RefreshTokenAuthGuard L orf now db req' = Inl (UnauthorizedException ''Unauthorized''))"
proof -
  have a: "JwtStrategy cfg = Inr oa \<Longrightarrow> \<not> ignoreExpiration oa"
    by (auto simp: JwtStrategy_def split: option.splits if_splits)
  have r: "RefreshTokenStrategy cfg = Inr orf \<Longrightarrow> \<not> ignoreExpiration orf"
    by (auto simp: RefreshTokenStrategy_def split: option.splits if_splits)
  have g1: "JwtAuthGuard L oa now db req = Inl (UnauthorizedException ''Unauthorized'')"
    if "jwt_verify L t (secretOrKey oa) (ignoreExpiration oa) now = Inl TokenExpiredError"
       "bearerToken req = Some t"
    using that by (simp add: JwtAuthGuard_def authenticate_def)
  have g2: "RefreshTokenAuthGuard L orf now db req' = Inl (UnauthorizedException ''Unauthorized'')"
    if "jwt_verify L t' (secretOrKey orf) (ignoreExpiration orf) now = Inl TokenExpiredError"
       "cookie_refresh_token req' = Some t'"
    using that by (simp add: RefreshTokenAuthGuard_def authenticate_def)
  show ?thesis
    using a r g1 g2 jwt_verify_expired [of L t "secretOrKey oa" now c]
      jwt_verify_expired [of L t' "secretOrKey orf" now c']
    by auto
qed

text \<open>
  Witness for C8: the tokens of \<open>u1\<close> expire at 605800 and are presented at 605801.
\<close>

theorem C8_expiry_enforced_witness:
  "JwtStrategy (configuration env_two_secrets) = Inr access_opts \<and>
   RefreshTokenStrategy (configuration env_two_secrets) = Inr refresh_opts \<and>
   jwt_verify sample_libs alice_access_token (secretOrKey access_opts) True 605801
     = Inr alice_claims \<and>
   jwt_verify sample_libs alice_refresh_token (secretOrKey refresh_opts) True 605801
     = Inr alice_claims \<and>
   exp alice_claims < 605801 \<and>
   bearerToken bearer_request = Some alice_access_token \<and>
   cookie_refresh_token refresh_request = Some alice_refresh_token \<and>
   \<not> ignoreExpiration access_opts \<and> \<not> ignoreExpiration refresh_opts \<and>
   jwt_verify sample_libs alice_access_token (secretOrKey access_opts)
       (ignoreExpiration access_opts) 605801 = Inl TokenExpiredError \<and>
   JwtAuthGuard sample_libs access_opts 605801 [alice] bearer_request
     = Inl (UnauthorizedException ''Unauthorized'') \<and>
   jwt_verify sample_libs alice_refresh_token (secretOrKey refresh_opts)
       (ignoreExpiration refresh_opts) 605801 = Inl TokenExpiredError \<and>
   RefreshTokenAuthGuard sample_libs refresh_opts 605801 [alice] refresh_request
     = Inl (UnauthorizedException ''Unauthorized'')"
proof -
  have h: "jwt_verify sample_libs alice_access_token (secretOrKey access_opts) True 605801
             = Inr alice_claims \<and>
           jwt_verify sample_libs alice_refresh_token (secretOrKey refresh_opts) True 605801
             = Inr alice_claims \<and>
           exp alice_claims < 605801 \<and>
           bearerToken bearer_request = Some alice_access_token \<and>
           cookie_refresh_token refresh_request = Some alice_refresh_token"
    by (simp add: alice_access_token_def alice_refresh_token_def jwt_verify_encodeToken
        access_opts_def refresh_opts_def bearer_request_def refresh_request_def
        cookie_refresh_token_def)
       (simp add: alice_claims_def)
  from h strategies_two_secrets
    C8_expiry_enforced
      [of "configuration env_two_secrets" access_opts refresh_opts sample_libs alice_access_token
          605801 alice_claims bearer_request "[alice]" alice_refresh_token alice_claims
          refresh_request]
  show ?thesis by auto
qed

section \<open>The password hash stays inside\<close>

lemma find_map_password:
  "find (\<lambda>u. doc_id u = i) (map (\<lambda>d. d\<lparr> doc_password := p \<rparr>) db)
     = map_option (\<lambda>d. d\<lparr> doc_password := p \<rparr>) (find (\<lambda>u. doc_id u = i) db)"
  by (induction db) auto

lemma findById_map_password:
  "findById (map (\<lambda>d. d\<lparr> doc_password := p \<rparr>) db) i
     = map_sum id (\<lambda>d. d\<lparr> doc_password := p \<rparr>) (findById db i)"
  by (simp add: findById_def find_map_password split: option.splits)

lemma toUserEntity_password: "toUserEntity (u\<lparr> doc_password := p \<rparr>) = toUserEntity u"
  by (simp add: toUserEntity_def)

lemma generateAuthResponse_fields:
  "doc_id u = doc_id v \<Longrightarrow> doc_email u = doc_email v \<Longrightarrow> doc_name u = doc_name v \<Longrightarrow>
   doc_createdAt u = doc_createdAt v \<Longrightarrow> doc_updatedAt u = doc_updatedAt v \<Longrightarrow>
   generateAuthResponse L cfg now u = generateAuthResponse L cfg now v"
  by (simp add: generateAuthResponse_def toUserEntity_def Let_def cong: sum.case_cong)

lemma generateAuthResponse_password:
  "generateAuthResponse L cfg now (u\<lparr> doc_password := p \<rparr>) = generateAuthResponse L cfg now u"
  by (rule generateAuthResponse_fields) simp_all

lemma encodeToken_hash: "encodeToken (L\<lparr> bcrypt_hash := h \<rparr>) k c = encodeToken L k c"
  by (simp add: encodeToken_def)

lemma JwtService_sign_hash:
  "JwtService_sign (L\<lparr> bcrypt_hash := h \<rparr>) m p so now = JwtService_sign L m p so now"
  by (simp add: JwtService_sign_def jwt_sign_def encodeToken_hash Let_def
      split: option.splits)

lemma generateAuthResponse_hash:
  "generateAuthResponse (L\<lparr> bcrypt_hash := h \<rparr>) cfg now u = generateAuthResponse L cfg now u"
  by (simp add: generateAuthResponse_def JwtService_sign_hash Let_def cong: sum.case_cong)

lemma findByIdAndUpdate_map_password:
  "fst (findByIdAndUpdate now (map (\<lambda>d. d\<lparr> doc_password := p \<rparr>) db) i d)
     = map_option (\<lambda>d. d\<lparr> doc_password := p \<rparr>) (fst (findByIdAndUpdate now db i d))"
  by (induction db)
     (auto simp: Let_def split: prod.splits option.splits intro!: UserDocument.equality)

lemma getProfile_map_password:
  "getProfile (map (\<lambda>d. d\<lparr> doc_password := p \<rparr>) db) i = getProfile db i"
  by (simp add: getProfile_def findById_map_password toUserEntity_password split: sum.splits)

lemma updateProfile_map_password:
  "fst (updateProfile now (map (\<lambda>d. d\<lparr> doc_password := p \<rparr>) db) i d)
     = fst (updateProfile now db i d)"
  using findByIdAndUpdate_map_password [of now p db i d]
  by (auto simp: updateProfile_def update_def toUserEntity_password
      split: prod.splits option.splits sum.splits)

lemma refreshTokens_map_password:
  "refreshTokens L cfg now (map (\<lambda>d. d\<lparr> doc_password := p \<rparr>) db) i e
     = refreshTokens L cfg now db i e"
  by (auto simp: refreshTokens_def findById_map_password generateAuthResponse_password
      split: sum.splits)

lemma JwtAuthGuard_map_password:
  "JwtAuthGuard L opts now (map (\<lambda>d. d\<lparr> doc_password := p \<rparr>) db) req
     = JwtAuthGuard L opts now db req"
  by (simp add: JwtAuthGuard_def authenticate_def JwtStrategy_validate_def findById_map_password
      split: option.splits sum.splits)

lemma RefreshTokenAuthGuard_map_password:
  "RefreshTokenAuthGuard L opts now (map (\<lambda>d. d\<lparr> doc_password := p \<rparr>) db) req
     = RefreshTokenAuthGuard L opts now db req"
  by (simp add: RefreshTokenAuthGuard_def authenticate_def RefreshTokenStrategy_validate_def
      findById_map_password split: option.splits sum.splits)

lemma signUp_hash:
  "fst (signUp (L\<lparr> bcrypt_hash := h \<rparr>) cfg now newId db dto) = fst (signUp L cfg now newId db dto)"
  by (auto simp: signUp_def create_def Let_def generateAuthResponse_hash findByEmail_def
      split: option.splits intro!: generateAuthResponse_fields)

lemma findByEmail_map_password:
  "findByEmail (map (\<lambda>d. d\<lparr> doc_password := p \<rparr>) db) e
     = map_option (\<lambda>d. d\<lparr> doc_password := p \<rparr>) (findByEmail db e)"
  by (induction db) (simp_all add: findByEmail_def)

lemma create_map_password:
  "fst (create L now newId (map (\<lambda>d. d\<lparr> doc_password := p \<rparr>) db) dto)
     = fst (create L now newId db dto)"
  by (simp add: create_def Let_def comp_def)

lemma signUp_map_password:
  "fst (signUp (L\<lparr> bcrypt_hash := h \<rparr>) cfg now newId
          (map (\<lambda>d. d\<lparr> doc_password := p \<rparr>) db) dto)
     = fst (signUp L cfg now newId db dto)"
proof -
  have "fst (signUp L cfg now newId (map (\<lambda>d. d\<lparr> doc_password := p \<rparr>) db) dto)
          = fst (signUp L cfg now newId db dto)"
    using create_map_password [of L now newId p db dto]
    by (auto simp: signUp_def findByEmail_map_password
        split: option.splits prod.splits sum.splits)
  then show ?thesis
    by (simp add: signUp_hash)
qed

text \<open>
  C9. The user of every outward response is a \<open>UserEntity\<close>: the id, email, name and the two
  dates of the document, and nothing else. The stored hash has no influence on what goes
  out: sign-up answers the same whatever the hash function computes and whatever hashes
  the users already in the collection have (the conflict with an existing user included),
  and sign-in, refresh, profile read and profile update answer the same when the stored
  hashes are replaced.
\<close>

theorem C9_password_hash_not_serialized:
  "toUserEntity u =
     \<lparr> ent_id = doc_id u, ent_email = doc_email u, ent_name = doc_name u,
       ent_createdAt = doc_createdAt u, ent_updatedAt = doc_updatedAt u \<rparr> \<and>
   toUserEntity (u\<lparr> doc_password := p \<rparr>) = toUserEntity u \<and>
   fst (AuthController_signUp (L\<lparr> bcrypt_hash := h \<rparr>) cfg now newId db dto res)
     = fst (AuthController_signUp L cfg now newId db dto res) \<and>
   fst (AuthController_signUp (L\<lparr> bcrypt_hash := h \<rparr>) cfg now newId
          (map (\<lambda>d. d\<lparr> doc_password := p \<rparr>) db) dto res)
     = fst (AuthController_signUp L cfg now newId db dto res) \<and>
   AuthController_signIn L cfg now (u\<lparr> doc_password := p \<rparr>) res
     = AuthController_signIn L cfg now u res \<and>
   post_auth_refresh L cfg opts now (map (\<lambda>d. d\<lparr> doc_password := p \<rparr>) db) req res
     = post_auth_refresh L cfg opts now db req res \<and>
   get_users_me L opts now (map (\<lambda>d. d\<lparr> doc_password := p \<rparr>) db) req
     = get_users_me L opts now db req \<and>
   fst (patch_users_me L opts now (map (\<lambda>d. d\<lparr> doc_password := p \<rparr>) db) req upd)
     = fst (patch_users_me L opts now db req upd)"
proof -
  have s: "fst (AuthController_signUp (L\<lparr> bcrypt_hash := h \<rparr>) cfg now newId db dto res)
             = fst (AuthController_signUp L cfg now newId db dto res)"
    using signUp_hash [where L = L and h = h and cfg = cfg and now = now and newId = newId
        and db = db and dto = dto]
    by (auto simp: AuthController_signUp_def split: prod.splits sum.splits)
  have m: "fst (AuthController_signUp (L\<lparr> bcrypt_hash := h \<rparr>) cfg now newId
                  (map (\<lambda>d. d\<lparr> doc_password := p \<rparr>) db) dto res)
             = fst (AuthController_signUp L cfg now newId db dto res)"
    using signUp_map_password [where L = L and h = h and cfg = cfg and now = now
        and newId = newId and p = p and db = db and dto = dto]
    by (auto simp: AuthController_signUp_def split: prod.splits sum.splits)
  have i: "AuthController_signIn L cfg now (u\<lparr> doc_password := p \<rparr>) res
             = AuthController_signIn L cfg now u res"
    by (simp add: AuthController_signIn_def signIn_def generateAuthResponse_password)
  have r: "post_auth_refresh L cfg opts now (map (\<lambda>d. d\<lparr> doc_password := p \<rparr>) db) req res
             = post_auth_refresh L cfg opts now db req res"
    by (simp add: post_auth_refresh_def RefreshTokenAuthGuard_map_password
        AuthController_refresh_def refreshTokens_map_password cong: sum.case_cong)
  have g: "get_users_me L opts now (map (\<lambda>d. d\<lparr> doc_password := p \<rparr>) db) req
             = get_users_me L opts now db req"
    by (simp add: get_users_me_def JwtAuthGuard_map_password getProfile_map_password
        cong: sum.case_cong)
  have u: "fst (patch_users_me L opts now (map (\<lambda>d. d\<lparr> doc_password := p \<rparr>) db) req upd)
             = fst (patch_users_me L opts now db req upd)"
    by (simp add: patch_users_me_def JwtAuthGuard_map_password updateProfile_map_password
        split: sum.splits cong: sum.case_cong)
  show ?thesis
    by (simp add: s m i r g u toUserEntity_password) (simp add: toUserEntity_def)
qed

text \<open>
  The theorem at concrete inputs: the profile of \<open>u1\<close>, read with her access token, with
  the stored hash and with another one; and a sign-up with the email of \<open>u1\<close>, which is
  answered with the same conflict whatever her stored hash and the hash function are.
\<close>

theorem C9_password_hash_not_serialized_witness:
  "get_users_me sample_libs access_opts 2000 [alice] bearer_request
     = Inr \<lparr> ent_id = ''u1'', ent_email = ''a@b.com'', ent_name = ''Ann Lee'',
             ent_createdAt = Some 2000, ent_updatedAt = Some 2000 \<rparr> \<and>
   get_users_me sample_libs access_opts 2000 [alice\<lparr> doc_password := ''$2b$10$other'' \<rparr>]
       bearer_request
     = Inr \<lparr> ent_id = ''u1'', ent_email = ''a@b.com'', ent_name = ''Ann Lee'',
             ent_createdAt = Some 2000, ent_updatedAt = Some 2000 \<rparr> \<and>
   fst (AuthController_signUp sample_libs (configuration env_two_secrets) 3000 ''u2''
          [alice] ann_signup [])
     = Inl (ConflictException ''User with this email already exists'') \<and>
   fst (AuthController_signUp (sample_libs\<lparr> bcrypt_hash := \<lambda>s. ''$2b$10$other'' \<rparr>)
          (configuration env_two_secrets) 3000 ''u2''
          [alice\<lparr> doc_password := ''$2b$10$other'' \<rparr>] ann_signup [])
     = Inl (ConflictException ''User with this email already exists'')"
proof -
  have g: "get_users_me sample_libs access_opts 2000 [alice] bearer_request
     = Inr \<lparr> ent_id = ''u1'', ent_email = ''a@b.com'', ent_name = ''Ann Lee'',
             ent_createdAt = Some 2000, ent_updatedAt = Some 2000 \<rparr>"
    by (simp add: get_users_me_def JwtAuthGuard_def authenticate_def bearer_request_def
        alice_access_token_nonempty alice_access_token_verifies JwtStrategy_validate_def)
       (simp add: findById_def getProfile_def toUserEntity_def alice_def alice_claims_def)
  have c: "fst (AuthController_signUp sample_libs (configuration env_two_secrets) 3000 ''u2''
                  [alice] ann_signup [])
             = Inl (ConflictException ''User with this email already exists'')"
    by (simp add: AuthController_signUp_def signUp_def findByEmail_def ann_signup_def
        toLowerCase_def lowerChar_def trim_def isSpace_def alice_def)
  from g c
       C9_password_hash_not_serialized
           [where L = sample_libs and opts = access_opts and now = 2000 and db = "[alice]"
              and p = "''$2b$10$other''" and req = bearer_request,
            THEN conjunct2, THEN conjunct2, THEN conjunct2, THEN conjunct2, THEN conjunct2,
            THEN conjunct2, THEN conjunct1]
       C9_password_hash_not_serialized
           [where L = sample_libs and h = "\<lambda>s. ''$2b$10$other''"
              and cfg = "configuration env_two_secrets" and now = 3000 and newId = "''u2''"
              and db = "[alice]" and p = "''$2b$10$other''" and dto = ann_signup
              and res = "[]",
            THEN conjunct2, THEN conjunct2, THEN conjunct2, THEN conjunct1]
  show ?thesis by simp
qed

section \<open>Both tokens, one identity\<close>

text \<open>
  C10. In an application that has started, every successful sign-in, refresh and sign-up
  returns one access token and one refresh token, both issued at the same instant over the
  payload \<open>{sub, email}\<close> of the same user document (the one signed in, the one found by
  the id, the one just created): the access token signed with the key of the access
  strategy, the refresh token with the key of the refresh strategy. The result type holds
  both tokens, and a failure of either signature is a failure of the whole operation.
\<close>

theorem C10_both_tokens_issued:
  assumes boot: "bootstrap L e = Inr a"
  shows
  "(signIn L (app_config a) now u = Inr r \<longrightarrow>
      (\<exists>la lr.
         access_token (response r) =
           encodeToken L (secretOrKey (app_jwt a))
             \<lparr> sub = doc_id u, email = doc_email u, iat = now, exp = now + la \<rparr> \<and>
         refreshToken r =
           encodeToken L (secretOrKey (app_refresh a))
             \<lparr> sub = doc_id u, email = doc_email u, iat = now, exp = now + lr \<rparr>)) \<and>
   (refreshTokens L (app_config a) now db i em = Inr r \<longrightarrow>
      (\<exists>v la lr. findById db i = Inr v \<and>
         access_token (response r) =
           encodeToken L (secretOrKey (app_jwt a))
             \<lparr> sub = doc_id v, email = doc_email v, iat = now, exp = now + la \<rparr> \<and>
         refreshToken r =
           encodeToken L (secretOrKey (app_refresh a))
             \<lparr> sub = doc_id v, email = doc_email v, iat = now, exp = now + lr \<rparr>)) \<and>
   (signUp L (app_config a) now newId db0 dto = (Inr r, db1) \<longrightarrow>
      (\<exists>v la lr. create L now newId db0 dto = (Inr v, db1) \<and>
         access_token (response r) =
           encodeToken L (secretOrKey (app_jwt a))
             \<lparr> sub = doc_id v, email = doc_email v, iat = now, exp = now + la \<rparr> \<and>
         refreshToken r =
           encodeToken L (secretOrKey (app_refresh a))
             \<lparr> sub = doc_id v, email = doc_email v, iat = now, exp = now + lr \<rparr>))"
proof -
  from bootstrap_Inr [OF boot] obtain ka kr where
    k: "secret (jwt (app_config a)) = Some ka"
       "refreshSecret (jwt (app_config a)) = Some kr" "kr \<noteq> []"
       "secretOrKey (app_jwt a) = ka" "secretOrKey (app_refresh a) = kr"
    by auto
  have g: "\<exists>la lr.
         access_token (response r) =
           encodeToken L ka \<lparr> sub = doc_id v, email = doc_email v, iat = now, exp = now + la \<rparr> \<and>
         refreshToken r =
           encodeToken L kr \<lparr> sub = doc_id v, email = doc_email v, iat = now, exp = now + lr \<rparr>"
    if "generateAuthResponse L (app_config a) now v = Inr r" for v
    using generateAuthResponse_Inr [OF that k(1) k(2) k(3)] by blast
  have s1: "signIn L (app_config a) now u = Inr r \<Longrightarrow>
              generateAuthResponse L (app_config a) now u = Inr r"
    by (simp add: signIn_def)
  have s2: "refreshTokens L (app_config a) now db i em = Inr r \<Longrightarrow>
              \<exists>v. findById db i = Inr v \<and> generateAuthResponse L (app_config a) now v = Inr r"
    by (auto simp: refreshTokens_def split: sum.splits)
  have s3: "signUp L (app_config a) now newId db0 dto = (Inr r, db1) \<Longrightarrow>
              \<exists>v. create L now newId db0 dto = (Inr v, db1) \<and>
                  generateAuthResponse L (app_config a) now v = Inr r"
    by (auto simp: signUp_def split: option.splits prod.splits sum.splits)
  show ?thesis
    using g s1 s2 s3 unfolding k(4) k(5) by blast
qed

text \<open>
  Witness for C10: sign-up of \<open>u1\<close> at time 2000, and her sign-in and refresh at the same
  time; the three operations return the same pair, whose tokens carry her id and email.
\<close>

theorem C10_both_tokens_issued_witness:
  "bootstrap sample_libs env_two_secrets =
     Inr \<lparr> app_config = configuration env_two_secrets, app_jwt = access_opts,
           app_refresh = refresh_opts \<rparr> \<and>
   signIn sample_libs (configuration env_two_secrets) 2000 alice = Inr alice_issued \<and>
   refreshTokens sample_libs (configuration env_two_secrets) 2000 [alice] ''u1'' ''a@b.com''
     = Inr alice_issued \<and>
   signUp sample_libs (configuration env_two_secrets) 2000 ''u1'' [] ann_signup
     = (Inr alice_issued, [alice]) \<and>
   (\<exists>la lr.
      access_token (response alice_issued) =
        encodeToken sample_libs (secretOrKey access_opts)
          \<lparr> sub = ''u1'', email = ''a@b.com'', iat = 2000, exp = 2000 + la \<rparr> \<and>
      refreshToken alice_issued =
        encodeToken sample_libs (secretOrKey refresh_opts)
          \<lparr> sub = ''u1'', email = ''a@b.com'', iat = 2000, exp = 2000 + lr \<rparr>)"
proof -
  let ?a = "\<lparr> app_config = configuration env_two_secrets, app_jwt = access_opts,
              app_refresh = refresh_opts \<rparr>"
  have boot: "bootstrap sample_libs env_two_secrets = Inr ?a"
    by (rule bootstrap_two_secrets)
  have i: "signIn sample_libs (configuration env_two_secrets) 2000 alice = Inr alice_issued"
    by (simp add: signIn_def generate_alice)
  have r: "refreshTokens sample_libs (configuration env_two_secrets) 2000 [alice] ''u1'' ''a@b.com''
             = Inr alice_issued"
    by (simp add: refreshTokens_def findById_def generate_alice) (simp add: alice_def)
  have f: "doc_id alice = ''u1'' \<and> doc_email alice = ''a@b.com''"
    by (simp add: alice_def)
  from C10_both_tokens_issued
         [OF boot, where now = 2000 and u = alice and r = alice_issued, THEN conjunct1]
       boot i r f signUp_ann
  show ?thesis by simp
qed

end
